theory Spec2Isabelle
  imports Complex_Main "HOL-Library.AList" "HOL-Library.Word"
begin

section \<open>Data model of \<^verbatim>\<open>app/api/sync.py\<close>\<close>

text \<open>
  The synchronisation endpoint \<^verbatim>\<open>sync_data\<close> reconciles five entity types against the
  record store and then answers with the rows changed since the client's watermark.
  Primary keys are UUIDs; the wire format carries them as strings.
\<close>

type_synonym uuid = "128 word"

text \<open>The exceptions the per-record \<^verbatim>\<open>try\<close> blocks absorb.\<close>

datatype error = TypeError | ValueError

text \<open>
  A Python \<^verbatim>\<open>datetime\<close> is naive (no \<^verbatim>\<open>tzinfo\<close>) or aware. The integer is the
  reading in microseconds: wall clock for a naive value, UTC instant for an aware one.
\<close>

datatype datetime = Naive int | Aware int

text \<open>\<^verbatim>\<open>conflict_resolution: Literal["server_wins", "client_wins", "newer_wins", "merge"]\<close>\<close>

datatype strategy = Server_wins | Client_wins | Newer_wins | Merge

subsection \<open>Request schemas (lines 21-84)\<close>

record SyncEntity =
  id_s :: string
  local_updated_at :: string
  is_deleted :: bool

record TripSyncData = SyncEntity +
  title :: "string option"
  destination :: "string option"
  start_date :: "string option"
  end_date :: "string option"
  budget :: "real option"
  preferences :: "(string \<times> string) list option"
  is_generated :: "bool option"

record DaySyncData = SyncEntity +
  trip_id :: string
  day_number :: "int option"
  date :: "string option"
  title :: "string option"

record ActivitySyncData = SyncEntity +
  day_id :: string
  time :: "string option"
  title :: "string option"
  description :: "string option"
  location :: "string option"
  estimated_cost :: "real option"
  "notes" :: "string option"
  is_completed :: "bool option"

record BudgetItemSyncData = SyncEntity +
  trip_id :: string
  category :: "string option"
  amount :: "real option"
  "note" :: "string option"

record NoteSyncData = SyncEntity +
  trip_id :: string
  content :: "string option"

record SyncRequest =
  last_sync_at :: "string option"
  conflict_resolution :: strategy
  trips :: "TripSyncData list"
  days :: "DaySyncData list"
  activities :: "ActivitySyncData list"
  budget_items :: "BudgetItemSyncData list"
  "notes" :: "NoteSyncData list"

subsection \<open>Stored rows (\<^verbatim>\<open>app/models/trip.py\<close>)\<close>

text \<open>
  Each table is an association list from primary key to row, in insertion order. The rows
  carry the columns the sync code reads or writes; \<^verbatim>\<open>preferences\<close> is the column
  \<^verbatim>\<open>sync.py\<close> assigns on a trip. Floats are reals: the code only stores and compares
  them with zero.
\<close>

record Trip =
  user_id :: uuid
  title :: string
  destination :: string
  start_date :: string
  end_date :: string
  budget :: "real option"
  preferences :: "(string \<times> string) list"
  is_generated :: bool
  is_synced :: bool
  local_updated_at :: datetime

record Day =
  trip_id :: uuid
  day_number :: int
  date :: string
  title :: "string option"
  is_synced :: bool
  local_updated_at :: datetime

record Activity =
  day_id :: uuid
  time :: "string option"
  title :: string
  description :: "string option"
  location :: "string option"
  estimated_cost :: "real option"
  "notes" :: "string option"
  is_completed :: bool
  is_synced :: bool
  local_updated_at :: datetime

record BudgetItem =
  trip_id :: uuid
  category :: string
  amount :: real
  "note" :: "string option"
  is_synced :: bool
  local_updated_at :: datetime

record Note =
  trip_id :: uuid
  content :: string
  is_synced :: bool
  local_updated_at :: datetime

record Store =
  tbl_trips :: "(uuid \<times> Trip) list"
  tbl_days :: "(uuid \<times> Day) list"
  tbl_activities :: "(uuid \<times> Activity) list"
  tbl_budget_items :: "(uuid \<times> BudgetItem) list"
  tbl_notes :: "(uuid \<times> Note) list"

subsection \<open>Response schemas (lines 87-111)\<close>

record SyncConflict =
  entity_type :: string
  entity_id :: string
  client_updated_at :: string
  server_updated_at :: string
  resolution :: string

text \<open>
  \<^verbatim>\<open>server_data\<close> maps the five keys to the selected rows; the serialisers of lines
  151-225 render each row field by field, one wire object per row.
\<close>

record ServerData =
  trips :: "(uuid \<times> Trip) list"
  days :: "(uuid \<times> Day) list"
  activities :: "(uuid \<times> Activity) list"
  budget_items :: "(uuid \<times> BudgetItem) list"
  "notes" :: "(uuid \<times> Note) list"

record SyncResponse =
  sync_timestamp :: string
  trips_uploaded :: int
  trips_downloaded :: int
  days_uploaded :: int
  days_downloaded :: int
  activities_uploaded :: int
  activities_downloaded :: int
  budget_items_uploaded :: int
  budget_items_downloaded :: int
  notes_uploaded :: int
  notes_downloaded :: int
  conflicts_resolved :: int
  conflicts :: "SyncConflict list"
  server_data :: ServerData

subsection \<open>The library and the clock\<close>

text \<open>
  What the code calls outside the repository is a parameter of the model, so every theorem
  holds whatever these return: \<^verbatim>\<open>uuid.UUID(s)\<close> (\<open>None\<close> when it raises
  \<^verbatim>\<open>ValueError\<close>), \<^verbatim>\<open>datetime.fromisoformat(s)\<close>,
  \<^verbatim>\<open>datetime.strptime(s, "%Y-%m-%d %H:%M:%S")\<close> (always naive),
  \<^verbatim>\<open>dt.isoformat()\<close>, \<^verbatim>\<open>datetime.utcnow()\<close> (always naive) and its
  \<^verbatim>\<open>strftime("%Y-%m-%d")\<close>. One request reads one clock value.
\<close>

record env =
  UUID :: "string \<Rightarrow> uuid option"
  fromisoformat :: "string \<Rightarrow> datetime option"
  strptime :: "string \<Rightarrow> int option"
  isoformat :: "datetime \<Rightarrow> string"
  utcnow :: int
  today :: string

text \<open>The state one call threads through its loops: the session, the response being
  built and the local list \<^verbatim>\<open>conflicts\<close>.\<close>

record sync_state =
  session :: Store
  response :: SyncResponse
  conflicts_acc :: "SyncConflict list"

section \<open>Conflict policy (lines 114-148)\<close>

text \<open>\<^verbatim>\<open>ts_str.endswith('Z')\<close> and \<^verbatim>\<open>ts_str.replace('Z', '+00:00')\<close>.\<close>

definition endswith_Z :: "string \<Rightarrow> bool" where
  "endswith_Z s = (s \<noteq> [] \<and> last s = CHR ''Z'')"

definition replace_Z :: "string \<Rightarrow> string" where
  "replace_Z s = concat (map (\<lambda>c. if c = CHR ''Z'' then ''+00:00'' else [c]) s)"

definition parse_timestamp :: "env \<Rightarrow> string \<Rightarrow> datetime" where
  "parse_timestamp e ts_str =
     (case (if CHR ''T'' \<in> set ts_str
            then (if endswith_Z ts_str then fromisoformat e (replace_Z ts_str)
                  else fromisoformat e ts_str)
            else map_option Naive (strptime e ts_str)) of
        Some dt \<Rightarrow> dt
      | None \<Rightarrow> Naive (utcnow e))"

text \<open>\<^verbatim>\<open>client_dt > server_timestamp\<close>: Python orders two naive or two aware values
  and raises \<^verbatim>\<open>TypeError\<close> on a naive and an aware one.\<close>

fun py_gt :: "datetime \<Rightarrow> datetime \<Rightarrow> error + bool" where
  "py_gt (Naive a) (Naive b) = Inr (a > b)"
| "py_gt (Aware a) (Aware b) = Inr (a > b)"
| "py_gt (Naive a) (Aware b) = Inl TypeError"
| "py_gt (Aware a) (Naive b) = Inl TypeError"

definition should_update :: "env \<Rightarrow> string \<Rightarrow> datetime option \<Rightarrow> strategy \<Rightarrow> error + bool" where
  "should_update e client_timestamp server_timestamp strat =
     (case server_timestamp of
        None \<Rightarrow> Inr True
      | Some server_dt \<Rightarrow>
          (let client_dt = parse_timestamp e client_timestamp in
           case strat of
             Client_wins \<Rightarrow> Inr True
           | Server_wins \<Rightarrow> Inr False
           | Newer_wins \<Rightarrow> py_gt client_dt server_dt
           | Merge \<Rightarrow> py_gt client_dt server_dt))"

section \<open>The session\<close>

text \<open>
  \<^verbatim>\<open>session.get(Model, key)\<close> by wire id resolves the string to the key and returns
  the row with its key, \<^verbatim>\<open>session.add\<close> inserts a new row or updates one in place,
  \<^verbatim>\<open>session.delete\<close> removes a row and, the foreign keys being declared
  \<^verbatim>\<open>ondelete="CASCADE"\<close>, the rows that hang off it.
\<close>

definition session_get :: "env \<Rightarrow> (uuid \<times> 'a) list \<Rightarrow> string \<Rightarrow> error + (uuid \<times> 'a) option" where
  "session_get e tbl s =
     (case UUID e s of
        None \<Rightarrow> Inl ValueError
      | Some k \<Rightarrow> Inr (map_option (Pair k) (map_of tbl k)))"

definition under_trip :: "Store \<Rightarrow> uuid \<Rightarrow> uuid \<Rightarrow> bool" where
  "under_trip s k d = (case map_of (tbl_days s) d of Some dy \<Rightarrow> Day.trip_id dy = k | None \<Rightarrow> False)"

definition delete_trip :: "uuid \<Rightarrow> Store \<Rightarrow> Store" where
  "delete_trip k s = s
     \<lparr>tbl_trips := AList.delete k (tbl_trips s),
      tbl_days := filter (\<lambda>r. Day.trip_id (snd r) \<noteq> k) (tbl_days s),
      tbl_activities := filter (\<lambda>r. \<not> under_trip s k (Activity.day_id (snd r))) (tbl_activities s),
      tbl_budget_items := filter (\<lambda>r. BudgetItem.trip_id (snd r) \<noteq> k) (tbl_budget_items s),
      tbl_notes := filter (\<lambda>r. Note.trip_id (snd r) \<noteq> k) (tbl_notes s)\<rparr>"

definition delete_day :: "uuid \<Rightarrow> Store \<Rightarrow> Store" where
  "delete_day k s = s
     \<lparr>tbl_days := AList.delete k (tbl_days s),
      tbl_activities := filter (\<lambda>r. Activity.day_id (snd r) \<noteq> k) (tbl_activities s)\<rparr>"

definition delete_activity :: "uuid \<Rightarrow> Store \<Rightarrow> Store" where
  "delete_activity k s = s\<lparr>tbl_activities := AList.delete k (tbl_activities s)\<rparr>"

definition delete_budget_item :: "uuid \<Rightarrow> Store \<Rightarrow> Store" where
  "delete_budget_item k s = s\<lparr>tbl_budget_items := AList.delete k (tbl_budget_items s)\<rparr>"

definition delete_note :: "uuid \<Rightarrow> Store \<Rightarrow> Store" where
  "delete_note k s = s\<lparr>tbl_notes := AList.delete k (tbl_notes s)\<rparr>"

definition add_trip :: "uuid \<Rightarrow> Trip \<Rightarrow> Store \<Rightarrow> Store" where
  "add_trip k t s = s\<lparr>tbl_trips := AList.update k t (tbl_trips s)\<rparr>"

definition add_day :: "uuid \<Rightarrow> Day \<Rightarrow> Store \<Rightarrow> Store" where
  "add_day k d s = s\<lparr>tbl_days := AList.update k d (tbl_days s)\<rparr>"

definition add_activity :: "uuid \<Rightarrow> Activity \<Rightarrow> Store \<Rightarrow> Store" where
  "add_activity k a s = s\<lparr>tbl_activities := AList.update k a (tbl_activities s)\<rparr>"

definition add_budget_item :: "uuid \<Rightarrow> BudgetItem \<Rightarrow> Store \<Rightarrow> Store" where
  "add_budget_item k b s = s\<lparr>tbl_budget_items := AList.update k b (tbl_budget_items s)\<rparr>"

definition add_note :: "uuid \<Rightarrow> Note \<Rightarrow> Store \<Rightarrow> Store" where
  "add_note k n s = s\<lparr>tbl_notes := AList.update k n (tbl_notes s)\<rparr>"

text \<open>Python's \<^verbatim>\<open>x or default\<close>: the default replaces \<^verbatim>\<open>None\<close> and every falsy
  value (the empty string, zero, \<^verbatim>\<open>False\<close>, the empty dict).\<close>

definition py_or :: "('a \<Rightarrow> bool) \<Rightarrow> 'a option \<Rightarrow> 'a \<Rightarrow> 'a" where
  "py_or truthy x dflt = (case x of None \<Rightarrow> dflt | Some v \<Rightarrow> if truthy v then v else dflt)"

definition truthy_str :: "string \<Rightarrow> bool" where
  "truthy_str s = (s \<noteq> [])"

definition truthy_int :: "int \<Rightarrow> bool" where
  "truthy_int n = (n \<noteq> 0)"

definition truthy_float :: "real \<Rightarrow> bool" where
  "truthy_float x = (x \<noteq> 0)"

definition truthy_bool :: "bool \<Rightarrow> bool" where
  "truthy_bool b = b"

definition truthy_dict :: "(string \<times> string) list \<Rightarrow> bool" where
  "truthy_dict d = (d \<noteq> [])"

text \<open>\<^verbatim>\<open>if data.f is not None: row.f = data.f\<close>\<close>

definition patch :: "'a option \<Rightarrow> 'a \<Rightarrow> 'a" where
  "patch x old = (case x of None \<Rightarrow> old | Some v \<Rightarrow> v)"

definition patch_opt :: "'a option \<Rightarrow> 'a option \<Rightarrow> 'a option" where
  "patch_opt x old = (case x of None \<Rightarrow> old | Some v \<Rightarrow> Some v)"

section \<open>Reconciling trips (lines 289-362)\<close>

definition apply_trip_updates :: "env \<Rightarrow> TripSyncData \<Rightarrow> Trip \<Rightarrow> Trip" where
  "apply_trip_updates e trip_data trip = trip
     \<lparr>Trip.title := patch (TripSyncData.title trip_data) (Trip.title trip),
      Trip.destination := patch (TripSyncData.destination trip_data) (Trip.destination trip),
      Trip.start_date := patch (TripSyncData.start_date trip_data) (Trip.start_date trip),
      Trip.end_date := patch (TripSyncData.end_date trip_data) (Trip.end_date trip),
      Trip.budget := patch_opt (TripSyncData.budget trip_data) (Trip.budget trip),
      Trip.preferences := patch (TripSyncData.preferences trip_data) (Trip.preferences trip),
      Trip.is_generated := patch (TripSyncData.is_generated trip_data) (Trip.is_generated trip),
      Trip.local_updated_at := parse_timestamp e (SyncEntity.local_updated_at trip_data),
      Trip.is_synced := True\<rparr>"

definition new_trip :: "env \<Rightarrow> uuid \<Rightarrow> TripSyncData \<Rightarrow> Trip" where
  "new_trip e uid trip_data =
     \<lparr>Trip.user_id = uid,
      Trip.title = py_or truthy_str (TripSyncData.title trip_data) ''Untitled Trip'',
      Trip.destination = py_or truthy_str (TripSyncData.destination trip_data) [],
      Trip.start_date = py_or truthy_str (TripSyncData.start_date trip_data) (today e),
      Trip.end_date = py_or truthy_str (TripSyncData.end_date trip_data) (today e),
      Trip.budget = TripSyncData.budget trip_data,
      Trip.preferences = py_or truthy_dict (TripSyncData.preferences trip_data) [],
      Trip.is_generated = py_or truthy_bool (TripSyncData.is_generated trip_data) False,
      Trip.is_synced = True,
      Trip.local_updated_at = parse_timestamp e (SyncEntity.local_updated_at trip_data)\<rparr>"

definition trip_conflict :: "env \<Rightarrow> TripSyncData \<Rightarrow> Trip \<Rightarrow> SyncConflict" where
  "trip_conflict e trip_data trip =
     \<lparr>entity_type = ''trip'',
      entity_id = id_s trip_data,
      client_updated_at = SyncEntity.local_updated_at trip_data,
      server_updated_at = isoformat e (Trip.local_updated_at trip),
      resolution = ''server_wins''\<rparr>"

definition count_trip :: "sync_state \<Rightarrow> sync_state" where
  "count_trip st = st\<lparr>response := (response st)\<lparr>trips_uploaded := trips_uploaded (response st) + 1\<rparr>\<rparr>"

text \<open>The body of the \<^verbatim>\<open>try\<close> for one trip record; \<open>Inl\<close> is an exception raised
  inside it, before any write.\<close>

definition sync_trip_try :: "env \<Rightarrow> uuid \<Rightarrow> strategy \<Rightarrow> TripSyncData \<Rightarrow> sync_state \<Rightarrow> error + sync_state" where
  "sync_trip_try e uid strat trip_data st =
     (case session_get e (tbl_trips (session st)) (id_s trip_data) of
        Inl err \<Rightarrow> Inl err
      | Inr trip \<Rightarrow>
          if is_deleted trip_data then
            (case trip of
               Some (k, t) \<Rightarrow>
                 if Trip.user_id t = uid
                 then Inr (count_trip (st\<lparr>session := delete_trip k (session st)\<rparr>))
                 else Inr st
             | None \<Rightarrow> Inr st)
          else
            (case trip of
               Some (k, t) \<Rightarrow>
                 if Trip.user_id t \<noteq> uid then Inr st
                 else
                   (case should_update e (SyncEntity.local_updated_at trip_data)
                           (Some (Trip.local_updated_at t)) strat of
                      Inl err \<Rightarrow> Inl err
                    | Inr should \<Rightarrow>
                        if \<not> should
                        then Inr (st\<lparr>conflicts_acc := conflicts_acc st @ [trip_conflict e trip_data t]\<rparr>)
                        else Inr (count_trip
                          (st\<lparr>session := add_trip k (apply_trip_updates e trip_data t) (session st)\<rparr>)))
             | None \<Rightarrow>
                 (case UUID e (id_s trip_data) of
                    None \<Rightarrow> Inl ValueError
                  | Some k \<Rightarrow>
                      Inr (count_trip
                        (st\<lparr>session := add_trip k (new_trip e uid trip_data) (session st)\<rparr>)))))"

text \<open>\<^verbatim>\<open>except Exception: continue\<close>\<close>

definition sync_trip :: "env \<Rightarrow> uuid \<Rightarrow> strategy \<Rightarrow> TripSyncData \<Rightarrow> sync_state \<Rightarrow> sync_state" where
  "sync_trip e uid strat trip_data st =
     (case sync_trip_try e uid strat trip_data st of Inl err \<Rightarrow> st | Inr st' \<Rightarrow> st')"

section \<open>Reconciling days (lines 364-419)\<close>

definition apply_day_updates :: "env \<Rightarrow> DaySyncData \<Rightarrow> Day \<Rightarrow> Day" where
  "apply_day_updates e day_data day = day
     \<lparr>Day.day_number := patch (DaySyncData.day_number day_data) (Day.day_number day),
      Day.date := patch (DaySyncData.date day_data) (Day.date day),
      Day.title := patch_opt (DaySyncData.title day_data) (Day.title day),
      Day.local_updated_at := parse_timestamp e (SyncEntity.local_updated_at day_data),
      Day.is_synced := True\<rparr>"

definition new_day :: "env \<Rightarrow> uuid \<Rightarrow> DaySyncData \<Rightarrow> Day" where
  "new_day e tk day_data =
     \<lparr>Day.trip_id = tk,
      Day.day_number = py_or truthy_int (DaySyncData.day_number day_data) 1,
      Day.date = py_or truthy_str (DaySyncData.date day_data) [],
      Day.title = Some (py_or truthy_str (DaySyncData.title day_data) []),
      Day.is_synced = True,
      Day.local_updated_at = parse_timestamp e (SyncEntity.local_updated_at day_data)\<rparr>"

definition count_day :: "sync_state \<Rightarrow> sync_state" where
  "count_day st = st\<lparr>response := (response st)\<lparr>days_uploaded := days_uploaded (response st) + 1\<rparr>\<rparr>"

text \<open>\<^verbatim>\<open>trip = session.get(Trip, key)\<close> followed by
  \<^verbatim>\<open>trip and trip.user_id == current_user.id\<close>.\<close>

definition owned_trip :: "Store \<Rightarrow> uuid \<Rightarrow> uuid \<Rightarrow> bool" where
  "owned_trip s uid tk =
     (case map_of (tbl_trips s) tk of Some t \<Rightarrow> Trip.user_id t = uid | None \<Rightarrow> False)"

definition sync_day_try :: "env \<Rightarrow> uuid \<Rightarrow> strategy \<Rightarrow> DaySyncData \<Rightarrow> sync_state \<Rightarrow> error + sync_state" where
  "sync_day_try e uid strat day_data st =
     (case session_get e (tbl_days (session st)) (id_s day_data) of
        Inl err \<Rightarrow> Inl err
      | Inr day \<Rightarrow>
          if is_deleted day_data then
            (case day of
               Some (k, d) \<Rightarrow>
                 if owned_trip (session st) uid (Day.trip_id d)
                 then Inr (count_day (st\<lparr>session := delete_day k (session st)\<rparr>))
                 else Inr st
             | None \<Rightarrow> Inr st)
          else
            (case day of
               Some (k, d) \<Rightarrow>
                 if \<not> owned_trip (session st) uid (Day.trip_id d) then Inr st
                 else
                   (case should_update e (SyncEntity.local_updated_at day_data)
                           (Some (Day.local_updated_at d)) strat of
                      Inl err \<Rightarrow> Inl err
                    | Inr should \<Rightarrow>
                        if should
                        then Inr (count_day
                          (st\<lparr>session := add_day k (apply_day_updates e day_data d) (session st)\<rparr>))
                        else Inr st)
             | None \<Rightarrow>
                 (case session_get e (tbl_trips (session st)) (DaySyncData.trip_id day_data) of
                    Inl err \<Rightarrow> Inl err
                  | Inr trip \<Rightarrow>
                      (case trip of
                         Some (tk, t) \<Rightarrow>
                           if Trip.user_id t = uid then
                             (case UUID e (id_s day_data) of
                                None \<Rightarrow> Inl ValueError
                              | Some k \<Rightarrow>
                                  (case UUID e (DaySyncData.trip_id day_data) of
                                     None \<Rightarrow> Inl ValueError
                                   | Some tk' \<Rightarrow>
                                       Inr (count_day
                                         (st\<lparr>session := add_day k (new_day e tk' day_data) (session st)\<rparr>))))
                           else Inr st
                       | None \<Rightarrow> Inr st))))"

definition sync_day :: "env \<Rightarrow> uuid \<Rightarrow> strategy \<Rightarrow> DaySyncData \<Rightarrow> sync_state \<Rightarrow> sync_state" where
  "sync_day e uid strat day_data st =
     (case sync_day_try e uid strat day_data st of Inl err \<Rightarrow> st | Inr st' \<Rightarrow> st')"

section \<open>Reconciling activities (lines 421-494)\<close>

definition apply_activity_updates :: "env \<Rightarrow> ActivitySyncData \<Rightarrow> Activity \<Rightarrow> Activity" where
  "apply_activity_updates e activity_data activity = activity
     \<lparr>Activity.time := patch_opt (ActivitySyncData.time activity_data) (Activity.time activity),
      Activity.title := patch (ActivitySyncData.title activity_data) (Activity.title activity),
      Activity.description :=
        patch_opt (ActivitySyncData.description activity_data) (Activity.description activity),
      Activity.location := patch_opt (ActivitySyncData.location activity_data) (Activity.location activity),
      Activity.estimated_cost :=
        patch_opt (ActivitySyncData.estimated_cost activity_data) (Activity.estimated_cost activity),
      Activity.notes := patch_opt (ActivitySyncData.notes activity_data) (Activity.notes activity),
      Activity.is_completed :=
        patch (ActivitySyncData.is_completed activity_data) (Activity.is_completed activity),
      Activity.local_updated_at := parse_timestamp e (SyncEntity.local_updated_at activity_data),
      Activity.is_synced := True\<rparr>"

definition new_activity :: "env \<Rightarrow> uuid \<Rightarrow> ActivitySyncData \<Rightarrow> Activity" where
  "new_activity e dk activity_data =
     \<lparr>Activity.day_id = dk,
      Activity.time = ActivitySyncData.time activity_data,
      Activity.title = py_or truthy_str (ActivitySyncData.title activity_data) [],
      Activity.description = ActivitySyncData.description activity_data,
      Activity.location = ActivitySyncData.location activity_data,
      Activity.estimated_cost = Some (py_or truthy_float (ActivitySyncData.estimated_cost activity_data) 0),
      Activity.notes = ActivitySyncData.notes activity_data,
      Activity.is_completed = py_or truthy_bool (ActivitySyncData.is_completed activity_data) False,
      Activity.is_synced = True,
      Activity.local_updated_at = parse_timestamp e (SyncEntity.local_updated_at activity_data)\<rparr>"

definition count_activity :: "sync_state \<Rightarrow> sync_state" where
  "count_activity st =
     st\<lparr>response := (response st)\<lparr>activities_uploaded := activities_uploaded (response st) + 1\<rparr>\<rparr>"

definition sync_activity_try :: "env \<Rightarrow> uuid \<Rightarrow> strategy \<Rightarrow> ActivitySyncData \<Rightarrow> sync_state \<Rightarrow> error + sync_state" where
  "sync_activity_try e uid strat activity_data st =
     (case session_get e (tbl_activities (session st)) (id_s activity_data) of
        Inl err \<Rightarrow> Inl err
      | Inr activity \<Rightarrow>
          if is_deleted activity_data then
            (case activity of
               Some (k, a) \<Rightarrow>
                 (case map_of (tbl_days (session st)) (Activity.day_id a) of
                    Some day \<Rightarrow>
                      if owned_trip (session st) uid (Day.trip_id day)
                      then Inr (count_activity (st\<lparr>session := delete_activity k (session st)\<rparr>))
                      else Inr st
                  | None \<Rightarrow> Inr st)
             | None \<Rightarrow> Inr st)
          else
            (case activity of
               Some (k, a) \<Rightarrow>
                 if (case map_of (tbl_days (session st)) (Activity.day_id a) of
                       Some day \<Rightarrow> \<not> owned_trip (session st) uid (Day.trip_id day)
                     | None \<Rightarrow> False)
                 then Inr st
                 else
                   (case should_update e (SyncEntity.local_updated_at activity_data)
                           (Some (Activity.local_updated_at a)) strat of
                      Inl err \<Rightarrow> Inl err
                    | Inr should \<Rightarrow>
                        if should
                        then Inr (count_activity
                          (st\<lparr>session :=
                             add_activity k (apply_activity_updates e activity_data a) (session st)\<rparr>))
                        else Inr st)
             | None \<Rightarrow>
                 (case session_get e (tbl_days (session st)) (ActivitySyncData.day_id activity_data) of
                    Inl err \<Rightarrow> Inl err
                  | Inr day \<Rightarrow>
                      (case day of
                         Some (dk, d) \<Rightarrow>
                           if owned_trip (session st) uid (Day.trip_id d) then
                             (case UUID e (id_s activity_data) of
                                None \<Rightarrow> Inl ValueError
                              | Some k \<Rightarrow>
                                  (case UUID e (ActivitySyncData.day_id activity_data) of
                                     None \<Rightarrow> Inl ValueError
                                   | Some dk' \<Rightarrow>
                                       Inr (count_activity
                                         (st\<lparr>session :=
                                            add_activity k (new_activity e dk' activity_data) (session st)\<rparr>))))
                           else Inr st
                       | None \<Rightarrow> Inr st))))"

definition sync_activity :: "env \<Rightarrow> uuid \<Rightarrow> strategy \<Rightarrow> ActivitySyncData \<Rightarrow> sync_state \<Rightarrow> sync_state" where
  "sync_activity e uid strat activity_data st =
     (case sync_activity_try e uid strat activity_data st of Inl err \<Rightarrow> st | Inr st' \<Rightarrow> st')"

section \<open>Reconciling budget items (lines 496-548)\<close>

definition apply_budget_item_updates :: "env \<Rightarrow> BudgetItemSyncData \<Rightarrow> BudgetItem \<Rightarrow> BudgetItem" where
  "apply_budget_item_updates e item_data item = item
     \<lparr>BudgetItem.category := patch (BudgetItemSyncData.category item_data) (BudgetItem.category item),
      BudgetItem.amount := patch (BudgetItemSyncData.amount item_data) (BudgetItem.amount item),
      BudgetItem.note := patch_opt (BudgetItemSyncData.note item_data) (BudgetItem.note item),
      BudgetItem.local_updated_at := parse_timestamp e (SyncEntity.local_updated_at item_data),
      BudgetItem.is_synced := True\<rparr>"

definition new_budget_item :: "env \<Rightarrow> uuid \<Rightarrow> BudgetItemSyncData \<Rightarrow> BudgetItem" where
  "new_budget_item e tk item_data =
     \<lparr>BudgetItem.trip_id = tk,
      BudgetItem.category = py_or truthy_str (BudgetItemSyncData.category item_data) [],
      BudgetItem.amount = py_or truthy_float (BudgetItemSyncData.amount item_data) 0,
      BudgetItem.note = BudgetItemSyncData.note item_data,
      BudgetItem.is_synced = True,
      BudgetItem.local_updated_at = parse_timestamp e (SyncEntity.local_updated_at item_data)\<rparr>"

definition count_budget_item :: "sync_state \<Rightarrow> sync_state" where
  "count_budget_item st =
     st\<lparr>response := (response st)\<lparr>budget_items_uploaded := budget_items_uploaded (response st) + 1\<rparr>\<rparr>"

definition sync_budget_item_try :: "env \<Rightarrow> uuid \<Rightarrow> strategy \<Rightarrow> BudgetItemSyncData \<Rightarrow> sync_state \<Rightarrow> error + sync_state" where
  "sync_budget_item_try e uid strat item_data st =
     (case session_get e (tbl_budget_items (session st)) (id_s item_data) of
        Inl err \<Rightarrow> Inl err
      | Inr item \<Rightarrow>
          if is_deleted item_data then
            (case item of
               Some (k, b) \<Rightarrow>
                 if owned_trip (session st) uid (BudgetItem.trip_id b)
                 then Inr (count_budget_item (st\<lparr>session := delete_budget_item k (session st)\<rparr>))
                 else Inr st
             | None \<Rightarrow> Inr st)
          else
            (case item of
               Some (k, b) \<Rightarrow>
                 if \<not> owned_trip (session st) uid (BudgetItem.trip_id b) then Inr st
                 else
                   (case should_update e (SyncEntity.local_updated_at item_data)
                           (Some (BudgetItem.local_updated_at b)) strat of
                      Inl err \<Rightarrow> Inl err
                    | Inr should \<Rightarrow>
                        if should
                        then Inr (count_budget_item
                          (st\<lparr>session :=
                             add_budget_item k (apply_budget_item_updates e item_data b) (session st)\<rparr>))
                        else Inr st)
             | None \<Rightarrow>
                 (case session_get e (tbl_trips (session st)) (BudgetItemSyncData.trip_id item_data) of
                    Inl err \<Rightarrow> Inl err
                  | Inr trip \<Rightarrow>
                      (case trip of
                         Some (tk, t) \<Rightarrow>
                           if Trip.user_id t = uid then
                             (case UUID e (id_s item_data) of
                                None \<Rightarrow> Inl ValueError
                              | Some k \<Rightarrow>
                                  (case UUID e (BudgetItemSyncData.trip_id item_data) of
                                     None \<Rightarrow> Inl ValueError
                                   | Some tk' \<Rightarrow>
                                       Inr (count_budget_item
                                         (st\<lparr>session :=
                                            add_budget_item k (new_budget_item e tk' item_data) (session st)\<rparr>))))
                           else Inr st
                       | None \<Rightarrow> Inr st))))"

definition sync_budget_item :: "env \<Rightarrow> uuid \<Rightarrow> strategy \<Rightarrow> BudgetItemSyncData \<Rightarrow> sync_state \<Rightarrow> sync_state" where
  "sync_budget_item e uid strat item_data st =
     (case sync_budget_item_try e uid strat item_data st of Inl err \<Rightarrow> st | Inr st' \<Rightarrow> st')"

section \<open>Reconciling notes (lines 550-596)\<close>

definition apply_note_updates :: "env \<Rightarrow> NoteSyncData \<Rightarrow> Note \<Rightarrow> Note" where
  "apply_note_updates e note_data nt = nt
     \<lparr>Note.content := patch (NoteSyncData.content note_data) (Note.content nt),
      Note.local_updated_at := parse_timestamp e (SyncEntity.local_updated_at note_data),
      Note.is_synced := True\<rparr>"

definition new_note :: "env \<Rightarrow> uuid \<Rightarrow> NoteSyncData \<Rightarrow> Note" where
  "new_note e tk note_data =
     \<lparr>Note.trip_id = tk,
      Note.content = py_or truthy_str (NoteSyncData.content note_data) [],
      Note.is_synced = True,
      Note.local_updated_at = parse_timestamp e (SyncEntity.local_updated_at note_data)\<rparr>"

definition count_note :: "sync_state \<Rightarrow> sync_state" where
  "count_note st = st\<lparr>response := (response st)\<lparr>notes_uploaded := notes_uploaded (response st) + 1\<rparr>\<rparr>"

definition sync_note_try :: "env \<Rightarrow> uuid \<Rightarrow> strategy \<Rightarrow> NoteSyncData \<Rightarrow> sync_state \<Rightarrow> error + sync_state" where
  "sync_note_try e uid strat note_data st =
     (case session_get e (tbl_notes (session st)) (id_s note_data) of
        Inl err \<Rightarrow> Inl err
      | Inr nt \<Rightarrow>
          if is_deleted note_data then
            (case nt of
               Some (k, n) \<Rightarrow>
                 if owned_trip (session st) uid (Note.trip_id n)
                 then Inr (count_note (st\<lparr>session := delete_note k (session st)\<rparr>))
                 else Inr st
             | None \<Rightarrow> Inr st)
          else
            (case nt of
               Some (k, n) \<Rightarrow>
                 if \<not> owned_trip (session st) uid (Note.trip_id n) then Inr st
                 else
                   (case should_update e (SyncEntity.local_updated_at note_data)
                           (Some (Note.local_updated_at n)) strat of
                      Inl err \<Rightarrow> Inl err
                    | Inr should \<Rightarrow>
                        if should
                        then Inr (count_note
                          (st\<lparr>session := add_note k (apply_note_updates e note_data n) (session st)\<rparr>))
                        else Inr st)
             | None \<Rightarrow>
                 (case session_get e (tbl_trips (session st)) (NoteSyncData.trip_id note_data) of
                    Inl err \<Rightarrow> Inl err
                  | Inr trip \<Rightarrow>
                      (case trip of
                         Some (tk, t) \<Rightarrow>
                           if Trip.user_id t = uid then
                             (case UUID e (id_s note_data) of
                                None \<Rightarrow> Inl ValueError
                              | Some k \<Rightarrow>
                                  (case UUID e (NoteSyncData.trip_id note_data) of
                                     None \<Rightarrow> Inl ValueError
                                   | Some tk' \<Rightarrow>
                                       Inr (count_note
                                         (st\<lparr>session := add_note k (new_note e tk' note_data) (session st)\<rparr>))))
                           else Inr st
                       | None \<Rightarrow> Inr st))))"

definition sync_note :: "env \<Rightarrow> uuid \<Rightarrow> strategy \<Rightarrow> NoteSyncData \<Rightarrow> sync_state \<Rightarrow> sync_state" where
  "sync_note e uid strat note_data st =
     (case sync_note_try e uid strat note_data st of Inl err \<Rightarrow> st | Inr st' \<Rightarrow> st')"

section \<open>The orchestrator (lines 275-287 and 598-663)\<close>

text \<open>The five loops in the order of the source: trips, days, activities, budget items,
  notes. Every loop body is total, so the upload phase always returns.\<close>

definition upload :: "env \<Rightarrow> uuid \<Rightarrow> SyncRequest \<Rightarrow> sync_state \<Rightarrow> sync_state" where
  "upload e uid request st =
     fold (sync_note e uid (conflict_resolution request)) (SyncRequest.notes request)
       (fold (sync_budget_item e uid (conflict_resolution request)) (SyncRequest.budget_items request)
         (fold (sync_activity e uid (conflict_resolution request)) (SyncRequest.activities request)
           (fold (sync_day e uid (conflict_resolution request)) (SyncRequest.days request)
             (fold (sync_trip e uid (conflict_resolution request)) (SyncRequest.trips request) st))))"

text \<open>
  The download queries run in the database, on a timezone-less \<^verbatim>\<open>DateTime\<close> column:
  \<^verbatim>\<open>Model.local_updated_at > last_sync\<close> orders the stored readings.
\<close>

definition reading :: "datetime \<Rightarrow> int" where
  "reading dt = (case dt of Naive n \<Rightarrow> n | Aware n \<Rightarrow> n)"

definition sql_gt :: "datetime \<Rightarrow> datetime \<Rightarrow> bool" where
  "sql_gt a b = (reading a > reading b)"

definition download :: "uuid \<Rightarrow> datetime option \<Rightarrow> Store \<Rightarrow> SyncResponse \<Rightarrow> SyncResponse" where
  "download uid last_sync s resp =
     (case last_sync of
        None \<Rightarrow> resp
      | Some ls \<Rightarrow>
          (let updated_trips =
                 filter (\<lambda>r. Trip.user_id (snd r) = uid \<and> sql_gt (Trip.local_updated_at (snd r)) ls)
                   (tbl_trips s);
               resp1 = resp
                 \<lparr>server_data := (server_data resp)\<lparr>ServerData.trips := updated_trips\<rparr>,
                  trips_downloaded := int (length updated_trips)\<rparr>;
               user_trip_ids = map fst (filter (\<lambda>r. Trip.user_id (snd r) = uid) (tbl_trips s))
           in if user_trip_ids = [] then resp1
              else
                (let updated_days =
                       filter (\<lambda>r. Day.trip_id (snd r) \<in> set user_trip_ids
                                  \<and> sql_gt (Day.local_updated_at (snd r)) ls) (tbl_days s);
                     resp2 = resp1
                       \<lparr>server_data := (server_data resp1)\<lparr>ServerData.days := updated_days\<rparr>,
                        days_downloaded := int (length updated_days)\<rparr>;
                     user_day_ids =
                       map fst (filter (\<lambda>r. Day.trip_id (snd r) \<in> set user_trip_ids) (tbl_days s));
                     resp3 =
                       (if user_day_ids = [] then resp2
                        else
                          (let updated_activities =
                                 filter (\<lambda>r. Activity.day_id (snd r) \<in> set user_day_ids
                                            \<and> sql_gt (Activity.local_updated_at (snd r)) ls)
                                   (tbl_activities s)
                           in resp2
                             \<lparr>server_data :=
                                (server_data resp2)\<lparr>ServerData.activities := updated_activities\<rparr>,
                              activities_downloaded := int (length updated_activities)\<rparr>));
                     updated_budget_items =
                       filter (\<lambda>r. BudgetItem.trip_id (snd r) \<in> set user_trip_ids
                                  \<and> sql_gt (BudgetItem.local_updated_at (snd r)) ls)
                         (tbl_budget_items s);
                     resp4 = resp3
                       \<lparr>server_data :=
                          (server_data resp3)\<lparr>ServerData.budget_items := updated_budget_items\<rparr>,
                        budget_items_downloaded := int (length updated_budget_items)\<rparr>;
                     updated_notes =
                       filter (\<lambda>r. Note.trip_id (snd r) \<in> set user_trip_ids
                                  \<and> sql_gt (Note.local_updated_at (snd r)) ls) (tbl_notes s)
                 in resp4
                   \<lparr>server_data := (server_data resp4)\<lparr>ServerData.notes := updated_notes\<rparr>,
                    notes_downloaded := int (length updated_notes)\<rparr>)))"

definition initial_response :: "env \<Rightarrow> SyncResponse" where
  "initial_response e =
     \<lparr>sync_timestamp = isoformat e (Naive (utcnow e)),
      trips_uploaded = 0, trips_downloaded = 0,
      days_uploaded = 0, days_downloaded = 0,
      activities_uploaded = 0, activities_downloaded = 0,
      budget_items_uploaded = 0, budget_items_downloaded = 0,
      notes_uploaded = 0, notes_downloaded = 0,
      conflicts_resolved = 0,
      conflicts = [],
      server_data =
        \<lparr>ServerData.trips = [], ServerData.days = [], ServerData.activities = [],
         ServerData.budget_items = [], ServerData.notes = []\<rparr>\<rparr>"

text \<open>\<^verbatim>\<open>last_sync = _parse_timestamp(request.last_sync_at) if request.last_sync_at else None\<close>:
  the empty string is falsy, like \<^verbatim>\<open>None\<close>.\<close>

definition last_sync_of :: "env \<Rightarrow> SyncRequest \<Rightarrow> datetime option" where
  "last_sync_of e request =
     (case last_sync_at request of
        None \<Rightarrow> None
      | Some w \<Rightarrow> if w = [] then None else Some (parse_timestamp e w))"

definition initial_state :: "env \<Rightarrow> Store \<Rightarrow> sync_state" where
  "initial_state e db = \<lparr>session = db, response = initial_response e, conflicts_acc = []\<rparr>"

text \<open>One call: the store before it, the store after \<^verbatim>\<open>session.commit()\<close> and the
  response.\<close>

definition sync_data :: "env \<Rightarrow> uuid \<Rightarrow> SyncRequest \<Rightarrow> Store \<Rightarrow> Store \<times> SyncResponse" where
  "sync_data e uid request db =
     (let last_sync = last_sync_of e request;
          st = upload e uid request (initial_state e db);
          resp = download uid last_sync (session st) (response st)
      in (session st,
          resp\<lparr>conflicts := conflicts_acc st,
               conflicts_resolved := int (length (conflicts_acc st))\<rparr>))"

section \<open>Ownership chains\<close>

text \<open>
  The owner a stored row resolves to: a trip's \<^verbatim>\<open>user_id\<close>; for a day, a budget item
  and a note the owner of the trip it references; for an activity the owner of its day.
  \<open>None\<close> when the row or a link of the chain is missing.
\<close>

definition trip_owner :: "Store \<Rightarrow> uuid \<Rightarrow> uuid option" where
  "trip_owner s k = map_option Trip.user_id (map_of (tbl_trips s) k)"

definition day_owner :: "Store \<Rightarrow> uuid \<Rightarrow> uuid option" where
  "day_owner s k =
     (case map_of (tbl_days s) k of None \<Rightarrow> None | Some d \<Rightarrow> trip_owner s (Day.trip_id d))"

definition activity_owner :: "Store \<Rightarrow> uuid \<Rightarrow> uuid option" where
  "activity_owner s k =
     (case map_of (tbl_activities s) k of None \<Rightarrow> None | Some a \<Rightarrow> day_owner s (Activity.day_id a))"

definition budget_item_owner :: "Store \<Rightarrow> uuid \<Rightarrow> uuid option" where
  "budget_item_owner s k =
     (case map_of (tbl_budget_items s) k of
        None \<Rightarrow> None
      | Some b \<Rightarrow> trip_owner s (BudgetItem.trip_id b))"

definition note_owner :: "Store \<Rightarrow> uuid \<Rightarrow> uuid option" where
  "note_owner s k =
     (case map_of (tbl_notes s) k of None \<Rightarrow> None | Some n \<Rightarrow> trip_owner s (Note.trip_id n))"


section \<open>A test fixture\<close>

text \<open>
  A library that knows a handful of identifiers and timestamps, two users, and a store in
  which each of them owns one trip with a day, an activity, a budget item and a note;
  activity \<open>0x31\<close> references a day that does not exist.
\<close>

definition ex_UUID :: "string \<Rightarrow> uuid option" where
  "ex_UUID s =
     (if s = ''00000000-0000-0000-0000-000000000001'' then Some 0x01
      else if s = ''00000000-0000-0000-0000-000000000002'' then Some 0x02
      else if s = ''00000000-0000-0000-0000-000000000003'' then Some 0x03
      else if s = ''00000000-0000-0000-0000-000000000010'' then Some 0x10
      else if s = ''00000000-0000-0000-0000-000000000020'' then Some 0x20
      else if s = ''00000000-0000-0000-0000-000000000030'' then Some 0x30
      else if s = ''00000000-0000-0000-0000-000000000011'' then Some 0x11
      else if s = ''00000000-0000-0000-0000-000000000021'' then Some 0x21
      else if s = ''00000000-0000-0000-0000-000000000031'' then Some 0x31
      else if s = ''00000000-0000-0000-0000-000000000041'' then Some 0x41
      else if s = ''00000000-0000-0000-0000-000000000012'' then Some 0x12
      else if s = ''00000000-0000-0000-0000-000000000022'' then Some 0x22
      else if s = ''00000000-0000-0000-0000-000000000032'' then Some 0x32
      else if s = ''00000000-0000-0000-0000-000000000013'' then Some 0x13
      else if s = ''00000000-0000-0000-0000-000000000023'' then Some 0x23
      else if s = ''00000000-0000-0000-0000-000000000033'' then Some 0x33
      else None)"

definition ex_fromisoformat :: "string \<Rightarrow> datetime option" where
  "ex_fromisoformat s =
     (if s = ''2024-01-15T10:30:00+00:00'' then Some (Aware 1705314600000000)
      else if s = ''2024-01-15T10:30:00'' then Some (Naive 1705314600000000)
      else if s = ''2024-01-10T08:00:00'' then Some (Naive 1704873600000000)
      else if s = ''2024-02-01T00:00:00'' then Some (Naive 1706745600000000)
      else None)"

definition ex_strptime :: "string \<Rightarrow> int option" where
  "ex_strptime s = (if s = ''2024-01-15 10:30:00'' then Some 1705314600000000 else None)"

definition ex_isoformat :: "datetime \<Rightarrow> string" where
  "ex_isoformat dt =
     (if dt = Naive 1705314600000000 then ''2024-01-15T10:30:00''
      else if dt = Aware 1705314600000000 then ''2024-01-15T10:30:00+00:00''
      else if dt = Naive 1704873600000000 then ''2024-01-10T08:00:00''
      else if dt = Naive 1706745600000000 then ''2024-02-01T00:00:00''
      else ''2024-06-01T10:00:00'')"

definition ex_env :: env where
  "ex_env =
     \<lparr>UUID = ex_UUID, fromisoformat = ex_fromisoformat, strptime = ex_strptime,
      isoformat = ex_isoformat, utcnow = 1717236000000000, today = ''2024-06-01''\<rparr>"

definition alice :: uuid where
  "alice = 0xA1"

definition bob :: uuid where
  "bob = 0xB0"

definition ex_trip :: "uuid \<Rightarrow> string \<Rightarrow> Trip" where
  "ex_trip u name =
     \<lparr>Trip.user_id = u, Trip.title = name, Trip.destination = ''Paris, France'',
      Trip.start_date = ''2024-06-15'', Trip.end_date = ''2024-06-17'', Trip.budget = Some 2000,
      Trip.preferences = [], Trip.is_generated = True, Trip.is_synced = True,
      Trip.local_updated_at = Naive 1705314600000000\<rparr>"

definition ex_day :: "uuid \<Rightarrow> Day" where
  "ex_day tk =
     \<lparr>Day.trip_id = tk, Day.day_number = 1, Day.date = ''2024-06-15'', Day.title = Some ''Day 1'',
      Day.is_synced = True, Day.local_updated_at = Naive 1705314600000000\<rparr>"

definition ex_activity :: "uuid \<Rightarrow> Activity" where
  "ex_activity dk =
     \<lparr>Activity.day_id = dk, Activity.time = Some ''09:00 AM'', Activity.title = ''Breakfast'',
      Activity.description = Some ''Morning meal'', Activity.location = Some ''Hotel'',
      Activity.estimated_cost = Some 15, Activity.notes = None, Activity.is_completed = False,
      Activity.is_synced = True, Activity.local_updated_at = Naive 1705314600000000\<rparr>"

definition ex_budget_item :: "uuid \<Rightarrow> BudgetItem" where
  "ex_budget_item tk =
     \<lparr>BudgetItem.trip_id = tk, BudgetItem.category = ''Accommodation'', BudgetItem.amount = 500,
      BudgetItem.note = Some ''Hotel booking'', BudgetItem.is_synced = True,
      BudgetItem.local_updated_at = Naive 1705314600000000\<rparr>"

definition ex_note :: "uuid \<Rightarrow> Note" where
  "ex_note tk =
     \<lparr>Note.trip_id = tk, Note.content = ''Remember to pack sunscreen'', Note.is_synced = True,
      Note.local_updated_at = Naive 1705314600000000\<rparr>"

definition ex_db :: Store where
  "ex_db =
     \<lparr>tbl_trips = [(0x01, ex_trip alice ''Server Trip''), (0x02, ex_trip bob ''Other Trip'')],
      tbl_days = [(0x10, ex_day 0x01), (0x20, ex_day 0x02)],
      tbl_activities = [(0x11, ex_activity 0x10), (0x21, ex_activity 0x20), (0x31, ex_activity 0x99)],
      tbl_budget_items = [(0x12, ex_budget_item 0x01), (0x22, ex_budget_item 0x02)],
      tbl_notes = [(0x13, ex_note 0x01), (0x23, ex_note 0x02)]\<rparr>"

definition ex_state :: sync_state where
  "ex_state = initial_state ex_env ex_db"

text \<open>Sparse records: only the envelope and what a test sets.\<close>

definition trip_record :: "string \<Rightarrow> string \<Rightarrow> bool \<Rightarrow> string option \<Rightarrow> TripSyncData" where
  "trip_record i ts del ttl =
     \<lparr>id_s = i, SyncEntity.local_updated_at = ts, is_deleted = del,
      TripSyncData.title = ttl, TripSyncData.destination = None, TripSyncData.start_date = None,
      TripSyncData.end_date = None, TripSyncData.budget = None, TripSyncData.preferences = None,
      TripSyncData.is_generated = None\<rparr>"

definition day_record :: "string \<Rightarrow> string \<Rightarrow> bool \<Rightarrow> string \<Rightarrow> int option \<Rightarrow> DaySyncData" where
  "day_record i ts del tid n =
     \<lparr>id_s = i, SyncEntity.local_updated_at = ts, is_deleted = del,
      DaySyncData.trip_id = tid, DaySyncData.day_number = n, DaySyncData.date = None,
      DaySyncData.title = None\<rparr>"

definition activity_record :: "string \<Rightarrow> string \<Rightarrow> bool \<Rightarrow> string \<Rightarrow> string option \<Rightarrow> ActivitySyncData" where
  "activity_record i ts del did ttl =
     \<lparr>id_s = i, SyncEntity.local_updated_at = ts, is_deleted = del,
      ActivitySyncData.day_id = did, ActivitySyncData.time = None, ActivitySyncData.title = ttl,
      ActivitySyncData.description = None, ActivitySyncData.location = None,
      ActivitySyncData.estimated_cost = None, ActivitySyncData.notes = None,
      ActivitySyncData.is_completed = None\<rparr>"

definition budget_item_record :: "string \<Rightarrow> string \<Rightarrow> bool \<Rightarrow> string \<Rightarrow> real option \<Rightarrow> BudgetItemSyncData" where
  "budget_item_record i ts del tid amt =
     \<lparr>id_s = i, SyncEntity.local_updated_at = ts, is_deleted = del,
      BudgetItemSyncData.trip_id = tid, BudgetItemSyncData.category = None,
      BudgetItemSyncData.amount = amt, BudgetItemSyncData.note = None\<rparr>"

definition note_record :: "string \<Rightarrow> string \<Rightarrow> bool \<Rightarrow> string \<Rightarrow> string option \<Rightarrow> NoteSyncData" where
  "note_record i ts del tid c =
     \<lparr>id_s = i, SyncEntity.local_updated_at = ts, is_deleted = del,
      NoteSyncData.trip_id = tid, NoteSyncData.content = c\<rparr>"





text \<open>
  Every row that resolves to an owner other than \<open>uid\<close> in the store \<open>s\<close> is the same
  row in the store \<open>s'\<close>.
\<close>

definition foreign_rows_kept :: "uuid \<Rightarrow> Store \<Rightarrow> Store \<Rightarrow> bool" where
  "foreign_rows_kept uid s s' =
     ((\<forall>k A. trip_owner s k = Some A \<and> A \<noteq> uid
          \<longrightarrow> map_of (tbl_trips s') k = map_of (tbl_trips s) k)
      \<and> (\<forall>k A. day_owner s k = Some A \<and> A \<noteq> uid
          \<longrightarrow> map_of (tbl_days s') k = map_of (tbl_days s) k)
      \<and> (\<forall>k A. activity_owner s k = Some A \<and> A \<noteq> uid
          \<longrightarrow> map_of (tbl_activities s') k = map_of (tbl_activities s) k)
      \<and> (\<forall>k A. budget_item_owner s k = Some A \<and> A \<noteq> uid
          \<longrightarrow> map_of (tbl_budget_items s') k = map_of (tbl_budget_items s) k)
      \<and> (\<forall>k A. note_owner s k = Some A \<and> A \<noteq> uid
          \<longrightarrow> map_of (tbl_notes s') k = map_of (tbl_notes s) k))"

text \<open>A request in which the caller names rows of the other user: an overwrite of trip
  \<open>0x02\<close>, and tombstones for its day, activity, budget item and note.\<close>

definition ex_foreign_request :: SyncRequest where
  "ex_foreign_request =
     \<lparr>last_sync_at = None, conflict_resolution = Client_wins,
      SyncRequest.trips =
        [trip_record ''00000000-0000-0000-0000-000000000002'' ''2024-02-01T00:00:00''
           False (Some ''Hijacked'')],
      SyncRequest.days =
        [day_record ''00000000-0000-0000-0000-000000000020'' ''2024-02-01T00:00:00''
           True ''00000000-0000-0000-0000-000000000001'' None],
      SyncRequest.activities =
        [activity_record ''00000000-0000-0000-0000-000000000021''
           ''2024-02-01T00:00:00'' True ''00000000-0000-0000-0000-000000000010'' None],
      SyncRequest.budget_items =
        [budget_item_record ''00000000-0000-0000-0000-000000000022''
           ''2024-02-01T00:00:00'' True ''00000000-0000-0000-0000-000000000001'' None],
      SyncRequest.notes =
        [note_record ''00000000-0000-0000-0000-000000000023'' ''2024-02-01T00:00:00''
           True ''00000000-0000-0000-0000-000000000001'' None]\<rparr>"

section \<open>The conflict policy\<close>

lemma py_gt_same_naive: "py_gt (Naive a) (Naive b) = Inr (b < a)"
  by simp

lemma py_gt_refl: "py_gt x x = Inr False"
  by (cases x) simp_all

lemma should_update_absent: "should_update e c None strat = Inr True"
  by (simp add: should_update_def)

lemma should_update_client_wins: "should_update e c s Client_wins = Inr True"
  by (simp add: should_update_def split: option.splits)

lemma should_update_server_wins: "should_update e c (Some s) Server_wins = Inr False"
  by (simp add: should_update_def)

lemma should_update_newer_wins:
  "should_update e c (Some s) Newer_wins = py_gt (parse_timestamp e c) s"
  by (simp add: should_update_def)

lemma should_update_merge:
  "should_update e c s Merge = should_update e c s Newer_wins"
  by (simp add: should_update_def split: option.splits)

lemma parse_timestamp_Z:
  "CHR ''T'' \<in> set ts \<Longrightarrow> endswith_Z ts \<Longrightarrow> fromisoformat e (replace_Z ts) = Some dt
   \<Longrightarrow> parse_timestamp e ts = dt"
  by (simp add: parse_timestamp_def)

lemma parse_timestamp_iso:
  "CHR ''T'' \<in> set ts \<Longrightarrow> \<not> endswith_Z ts \<Longrightarrow> fromisoformat e ts = Some dt
   \<Longrightarrow> parse_timestamp e ts = dt"
  by (simp add: parse_timestamp_def)

lemma parse_timestamp_legacy:
  "CHR ''T'' \<notin> set ts \<Longrightarrow> strptime e ts = Some n \<Longrightarrow> parse_timestamp e ts = Naive n"
  by (simp add: parse_timestamp_def)

lemma parse_timestamp_unparseable:
  "fromisoformat e ts = None \<Longrightarrow> fromisoformat e (replace_Z ts) = None \<Longrightarrow> strptime e ts = None
   \<Longrightarrow> parse_timestamp e ts = Naive (utcnow e)"
  by (simp add: parse_timestamp_def)

section \<open>What one record does\<close>

lemma owned_trip_iff: "owned_trip s uid tk \<longleftrightarrow> trip_owner s tk = Some uid"
  by (auto simp add: owned_trip_def trip_owner_def split: option.splits)

subsection \<open>Trips\<close>

lemma sync_trip_bad_id:
  "UUID e (id_s d) = None \<Longrightarrow> sync_trip e uid strat d st = st"
  by (simp add: sync_trip_def sync_trip_try_def session_get_def)

lemma sync_trip_foreign:
  "UUID e (id_s d) = Some k \<Longrightarrow> map_of (tbl_trips (session st)) k = Some t \<Longrightarrow> Trip.user_id t \<noteq> uid
   \<Longrightarrow> sync_trip e uid strat d st = st"
  by (simp add: sync_trip_def sync_trip_try_def session_get_def)

lemma sync_trip_delete:
  "UUID e (id_s d) = Some k \<Longrightarrow> map_of (tbl_trips (session st)) k = Some t \<Longrightarrow> Trip.user_id t = uid
   \<Longrightarrow> is_deleted d
   \<Longrightarrow> sync_trip e uid strat d st = count_trip (st\<lparr>session := delete_trip k (session st)\<rparr>)"
  by (simp add: sync_trip_def sync_trip_try_def session_get_def)

lemma sync_trip_absent_deleted:
  "UUID e (id_s d) = Some k \<Longrightarrow> map_of (tbl_trips (session st)) k = None \<Longrightarrow> is_deleted d
   \<Longrightarrow> sync_trip e uid strat d st = st"
  by (simp add: sync_trip_def sync_trip_try_def session_get_def)

lemma sync_trip_create:
  "UUID e (id_s d) = Some k \<Longrightarrow> map_of (tbl_trips (session st)) k = None \<Longrightarrow> \<not> is_deleted d
   \<Longrightarrow> sync_trip e uid strat d st
       = count_trip (st\<lparr>session := add_trip k (new_trip e uid d) (session st)\<rparr>)"
  by (simp add: sync_trip_def sync_trip_try_def session_get_def)

lemma sync_trip_existing:
  "UUID e (id_s d) = Some k \<Longrightarrow> map_of (tbl_trips (session st)) k = Some t \<Longrightarrow> Trip.user_id t = uid
   \<Longrightarrow> \<not> is_deleted d
   \<Longrightarrow> sync_trip e uid strat d st =
       (case should_update e (SyncEntity.local_updated_at d) (Some (Trip.local_updated_at t)) strat of
          Inl err \<Rightarrow> st
        | Inr should \<Rightarrow>
            if should then count_trip (st\<lparr>session := add_trip k (apply_trip_updates e d t) (session st)\<rparr>)
            else st\<lparr>conflicts_acc := conflicts_acc st @ [trip_conflict e d t]\<rparr>)"
  by (simp add: sync_trip_def sync_trip_try_def session_get_def split: sum.splits)

subsection \<open>Days\<close>

lemma sync_day_bad_id:
  "UUID e (id_s d) = None \<Longrightarrow> sync_day e uid strat d st = st"
  by (simp add: sync_day_def sync_day_try_def session_get_def)

lemma sync_day_foreign:
  "UUID e (id_s d) = Some k \<Longrightarrow> map_of (tbl_days (session st)) k = Some dy
   \<Longrightarrow> \<not> owned_trip (session st) uid (Day.trip_id dy)
   \<Longrightarrow> sync_day e uid strat d st = st"
  by (simp add: sync_day_def sync_day_try_def session_get_def)

lemma sync_day_delete:
  "UUID e (id_s d) = Some k \<Longrightarrow> map_of (tbl_days (session st)) k = Some dy
   \<Longrightarrow> owned_trip (session st) uid (Day.trip_id dy) \<Longrightarrow> is_deleted d
   \<Longrightarrow> sync_day e uid strat d st = count_day (st\<lparr>session := delete_day k (session st)\<rparr>)"
  by (simp add: sync_day_def sync_day_try_def session_get_def)

lemma sync_day_absent_deleted:
  "UUID e (id_s d) = Some k \<Longrightarrow> map_of (tbl_days (session st)) k = None \<Longrightarrow> is_deleted d
   \<Longrightarrow> sync_day e uid strat d st = st"
  by (simp add: sync_day_def sync_day_try_def session_get_def)

lemma sync_day_create:
  "UUID e (id_s d) = Some k \<Longrightarrow> map_of (tbl_days (session st)) k = None \<Longrightarrow> \<not> is_deleted d
   \<Longrightarrow> UUID e (DaySyncData.trip_id d) = Some tk \<Longrightarrow> owned_trip (session st) uid tk
   \<Longrightarrow> sync_day e uid strat d st
       = count_day (st\<lparr>session := add_day k (new_day e tk d) (session st)\<rparr>)"
  by (auto simp add: sync_day_def sync_day_try_def session_get_def owned_trip_def split: option.splits)

lemma sync_day_create_skip:
  "UUID e (id_s d) = Some k \<Longrightarrow> map_of (tbl_days (session st)) k = None \<Longrightarrow> \<not> is_deleted d
   \<Longrightarrow> (case UUID e (DaySyncData.trip_id d) of None \<Rightarrow> True | Some tk \<Rightarrow> \<not> owned_trip (session st) uid tk)
   \<Longrightarrow> sync_day e uid strat d st = st"
  by (auto simp add: sync_day_def sync_day_try_def session_get_def owned_trip_def split: option.splits)

lemma sync_day_existing:
  "UUID e (id_s d) = Some k \<Longrightarrow> map_of (tbl_days (session st)) k = Some dy
   \<Longrightarrow> owned_trip (session st) uid (Day.trip_id dy) \<Longrightarrow> \<not> is_deleted d
   \<Longrightarrow> sync_day e uid strat d st =
       (case should_update e (SyncEntity.local_updated_at d) (Some (Day.local_updated_at dy)) strat of
          Inl err \<Rightarrow> st
        | Inr should \<Rightarrow>
            if should then count_day (st\<lparr>session := add_day k (apply_day_updates e d dy) (session st)\<rparr>)
            else st)"
  by (simp add: sync_day_def sync_day_try_def session_get_def split: sum.splits)

subsection \<open>Activities\<close>


lemma sync_activity_bad_id:
  "UUID e (id_s d) = None \<Longrightarrow> sync_activity e uid strat d st = st"
  by (simp add: sync_activity_def sync_activity_try_def session_get_def)

lemma sync_activity_foreign:
  "UUID e (id_s d) = Some k \<Longrightarrow> map_of (tbl_activities (session st)) k = Some a
   \<Longrightarrow> map_of (tbl_days (session st)) (Activity.day_id a) = Some dy
   \<Longrightarrow> \<not> owned_trip (session st) uid (Day.trip_id dy)
   \<Longrightarrow> sync_activity e uid strat d st = st"
  by (simp add: sync_activity_def sync_activity_try_def session_get_def)

lemma sync_activity_delete:
  "UUID e (id_s d) = Some k \<Longrightarrow> map_of (tbl_activities (session st)) k = Some a
   \<Longrightarrow> map_of (tbl_days (session st)) (Activity.day_id a) = Some dy
   \<Longrightarrow> owned_trip (session st) uid (Day.trip_id dy) \<Longrightarrow> is_deleted d
   \<Longrightarrow> sync_activity e uid strat d st
       = count_activity (st\<lparr>session := delete_activity k (session st)\<rparr>)"
  by (simp add: sync_activity_def sync_activity_try_def session_get_def)

lemma sync_activity_orphan_deleted:
  "UUID e (id_s d) = Some k \<Longrightarrow> map_of (tbl_activities (session st)) k = Some a
   \<Longrightarrow> map_of (tbl_days (session st)) (Activity.day_id a) = None \<Longrightarrow> is_deleted d
   \<Longrightarrow> sync_activity e uid strat d st = st"
  by (simp add: sync_activity_def sync_activity_try_def session_get_def)

lemma sync_activity_absent_deleted:
  "UUID e (id_s d) = Some k \<Longrightarrow> map_of (tbl_activities (session st)) k = None \<Longrightarrow> is_deleted d
   \<Longrightarrow> sync_activity e uid strat d st = st"
  by (simp add: sync_activity_def sync_activity_try_def session_get_def)

lemma sync_activity_create:
  "UUID e (id_s d) = Some k \<Longrightarrow> map_of (tbl_activities (session st)) k = None \<Longrightarrow> \<not> is_deleted d
   \<Longrightarrow> UUID e (ActivitySyncData.day_id d) = Some dk \<Longrightarrow> map_of (tbl_days (session st)) dk = Some dy
   \<Longrightarrow> owned_trip (session st) uid (Day.trip_id dy)
   \<Longrightarrow> sync_activity e uid strat d st
       = count_activity (st\<lparr>session := add_activity k (new_activity e dk d) (session st)\<rparr>)"
  by (simp add: sync_activity_def sync_activity_try_def session_get_def)

lemma sync_activity_create_skip:
  "UUID e (id_s d) = Some k \<Longrightarrow> map_of (tbl_activities (session st)) k = None \<Longrightarrow> \<not> is_deleted d
   \<Longrightarrow> (case UUID e (ActivitySyncData.day_id d) of
          None \<Rightarrow> True
        | Some dk \<Rightarrow> (case map_of (tbl_days (session st)) dk of
                       None \<Rightarrow> True
                     | Some dy \<Rightarrow> \<not> owned_trip (session st) uid (Day.trip_id dy)))
   \<Longrightarrow> sync_activity e uid strat d st = st"
  by (auto simp add: sync_activity_def sync_activity_try_def session_get_def split: option.splits)

lemma sync_activity_existing:
  "UUID e (id_s d) = Some k \<Longrightarrow> map_of (tbl_activities (session st)) k = Some a
   \<Longrightarrow> (case map_of (tbl_days (session st)) (Activity.day_id a) of
          None \<Rightarrow> True
        | Some dy \<Rightarrow> owned_trip (session st) uid (Day.trip_id dy))
   \<Longrightarrow> \<not> is_deleted d
   \<Longrightarrow> sync_activity e uid strat d st =
       (case should_update e (SyncEntity.local_updated_at d) (Some (Activity.local_updated_at a)) strat of
          Inl err \<Rightarrow> st
        | Inr should \<Rightarrow>
            if should
            then count_activity (st\<lparr>session := add_activity k (apply_activity_updates e d a) (session st)\<rparr>)
            else st)"
  by (auto simp add: sync_activity_def sync_activity_try_def session_get_def split: sum.splits option.splits)

subsection \<open>Budget items\<close>

lemma sync_budget_item_bad_id:
  "UUID e (id_s d) = None \<Longrightarrow> sync_budget_item e uid strat d st = st"
  by (simp add: sync_budget_item_def sync_budget_item_try_def session_get_def)

lemma sync_budget_item_foreign:
  "UUID e (id_s d) = Some k \<Longrightarrow> map_of (tbl_budget_items (session st)) k = Some b
   \<Longrightarrow> \<not> owned_trip (session st) uid (BudgetItem.trip_id b)
   \<Longrightarrow> sync_budget_item e uid strat d st = st"
  by (simp add: sync_budget_item_def sync_budget_item_try_def session_get_def)

lemma sync_budget_item_delete:
  "UUID e (id_s d) = Some k \<Longrightarrow> map_of (tbl_budget_items (session st)) k = Some b
   \<Longrightarrow> owned_trip (session st) uid (BudgetItem.trip_id b) \<Longrightarrow> is_deleted d
   \<Longrightarrow> sync_budget_item e uid strat d st
       = count_budget_item (st\<lparr>session := delete_budget_item k (session st)\<rparr>)"
  by (simp add: sync_budget_item_def sync_budget_item_try_def session_get_def)

lemma sync_budget_item_absent_deleted:
  "UUID e (id_s d) = Some k \<Longrightarrow> map_of (tbl_budget_items (session st)) k = None \<Longrightarrow> is_deleted d
   \<Longrightarrow> sync_budget_item e uid strat d st = st"
  by (simp add: sync_budget_item_def sync_budget_item_try_def session_get_def)

lemma sync_budget_item_create:
  "UUID e (id_s d) = Some k \<Longrightarrow> map_of (tbl_budget_items (session st)) k = None \<Longrightarrow> \<not> is_deleted d
   \<Longrightarrow> UUID e (BudgetItemSyncData.trip_id d) = Some tk \<Longrightarrow> owned_trip (session st) uid tk
   \<Longrightarrow> sync_budget_item e uid strat d st
       = count_budget_item (st\<lparr>session := add_budget_item k (new_budget_item e tk d) (session st)\<rparr>)"
  by (auto simp add: sync_budget_item_def sync_budget_item_try_def session_get_def owned_trip_def
      split: option.splits)

lemma sync_budget_item_create_skip:
  "UUID e (id_s d) = Some k \<Longrightarrow> map_of (tbl_budget_items (session st)) k = None \<Longrightarrow> \<not> is_deleted d
   \<Longrightarrow> (case UUID e (BudgetItemSyncData.trip_id d) of
          None \<Rightarrow> True
        | Some tk \<Rightarrow> \<not> owned_trip (session st) uid tk)
   \<Longrightarrow> sync_budget_item e uid strat d st = st"
  by (auto simp add: sync_budget_item_def sync_budget_item_try_def session_get_def owned_trip_def
      split: option.splits)

lemma sync_budget_item_existing:
  "UUID e (id_s d) = Some k \<Longrightarrow> map_of (tbl_budget_items (session st)) k = Some b
   \<Longrightarrow> owned_trip (session st) uid (BudgetItem.trip_id b) \<Longrightarrow> \<not> is_deleted d
   \<Longrightarrow> sync_budget_item e uid strat d st =
       (case should_update e (SyncEntity.local_updated_at d) (Some (BudgetItem.local_updated_at b)) strat of
          Inl err \<Rightarrow> st
        | Inr should \<Rightarrow>
            if should
            then count_budget_item
              (st\<lparr>session := add_budget_item k (apply_budget_item_updates e d b) (session st)\<rparr>)
            else st)"
  by (simp add: sync_budget_item_def sync_budget_item_try_def session_get_def split: sum.splits)

subsection \<open>Notes\<close>

lemma sync_note_bad_id:
  "UUID e (id_s d) = None \<Longrightarrow> sync_note e uid strat d st = st"
  by (simp add: sync_note_def sync_note_try_def session_get_def)

lemma sync_note_foreign:
  "UUID e (id_s d) = Some k \<Longrightarrow> map_of (tbl_notes (session st)) k = Some n
   \<Longrightarrow> \<not> owned_trip (session st) uid (Note.trip_id n)
   \<Longrightarrow> sync_note e uid strat d st = st"
  by (simp add: sync_note_def sync_note_try_def session_get_def)

lemma sync_note_delete:
  "UUID e (id_s d) = Some k \<Longrightarrow> map_of (tbl_notes (session st)) k = Some n
   \<Longrightarrow> owned_trip (session st) uid (Note.trip_id n) \<Longrightarrow> is_deleted d
   \<Longrightarrow> sync_note e uid strat d st = count_note (st\<lparr>session := delete_note k (session st)\<rparr>)"
  by (simp add: sync_note_def sync_note_try_def session_get_def)

lemma sync_note_absent_deleted:
  "UUID e (id_s d) = Some k \<Longrightarrow> map_of (tbl_notes (session st)) k = None \<Longrightarrow> is_deleted d
   \<Longrightarrow> sync_note e uid strat d st = st"
  by (simp add: sync_note_def sync_note_try_def session_get_def)

lemma sync_note_create:
  "UUID e (id_s d) = Some k \<Longrightarrow> map_of (tbl_notes (session st)) k = None \<Longrightarrow> \<not> is_deleted d
   \<Longrightarrow> UUID e (NoteSyncData.trip_id d) = Some tk \<Longrightarrow> owned_trip (session st) uid tk
   \<Longrightarrow> sync_note e uid strat d st
       = count_note (st\<lparr>session := add_note k (new_note e tk d) (session st)\<rparr>)"
  by (auto simp add: sync_note_def sync_note_try_def session_get_def owned_trip_def split: option.splits)

lemma sync_note_create_skip:
  "UUID e (id_s d) = Some k \<Longrightarrow> map_of (tbl_notes (session st)) k = None \<Longrightarrow> \<not> is_deleted d
   \<Longrightarrow> (case UUID e (NoteSyncData.trip_id d) of None \<Rightarrow> True | Some tk \<Rightarrow> \<not> owned_trip (session st) uid tk)
   \<Longrightarrow> sync_note e uid strat d st = st"
  by (auto simp add: sync_note_def sync_note_try_def session_get_def owned_trip_def split: option.splits)

lemma sync_note_existing:
  "UUID e (id_s d) = Some k \<Longrightarrow> map_of (tbl_notes (session st)) k = Some n
   \<Longrightarrow> owned_trip (session st) uid (Note.trip_id n) \<Longrightarrow> \<not> is_deleted d
   \<Longrightarrow> sync_note e uid strat d st =
       (case should_update e (SyncEntity.local_updated_at d) (Some (Note.local_updated_at n)) strat of
          Inl err \<Rightarrow> st
        | Inr should \<Rightarrow>
            if should then count_note (st\<lparr>session := add_note k (apply_note_updates e d n) (session st)\<rparr>)
            else st)"
  by (simp add: sync_note_def sync_note_try_def session_get_def split: sum.splits)

section \<open>Tombstones\<close>

lemma row_absent_after_delete:
  "map_of (tbl_trips (delete_trip k s)) k = None"
  "map_of (tbl_days (delete_day k s)) k = None"
  "map_of (tbl_activities (delete_activity k s)) k = None"
  "map_of (tbl_budget_items (delete_budget_item k s)) k = None"
  "map_of (tbl_notes (delete_note k s)) k = None"
  by (simp_all add: delete_trip_def delete_day_def delete_activity_def delete_budget_item_def
      delete_note_def delete_conv)

lemma sync_trip_tombstone:
  "is_deleted d \<Longrightarrow>
   sync_trip e uid strat d st =
     (case UUID e (id_s d) of
        None \<Rightarrow> st
      | Some k \<Rightarrow>
          if trip_owner (session st) k = Some uid
          then count_trip (st\<lparr>session := delete_trip k (session st)\<rparr>)
          else st)"
  by (auto simp add: sync_trip_def sync_trip_try_def session_get_def trip_owner_def
      split: option.splits)

lemma sync_day_tombstone:
  "is_deleted d \<Longrightarrow>
   sync_day e uid strat d st =
     (case UUID e (id_s d) of
        None \<Rightarrow> st
      | Some k \<Rightarrow>
          if day_owner (session st) k = Some uid
          then count_day (st\<lparr>session := delete_day k (session st)\<rparr>)
          else st)"
  by (auto simp add: sync_day_def sync_day_try_def session_get_def day_owner_def owned_trip_iff
      split: option.splits)

lemma sync_activity_tombstone:
  "is_deleted d \<Longrightarrow>
   sync_activity e uid strat d st =
     (case UUID e (id_s d) of
        None \<Rightarrow> st
      | Some k \<Rightarrow>
          if activity_owner (session st) k = Some uid
          then count_activity (st\<lparr>session := delete_activity k (session st)\<rparr>)
          else st)"
  by (auto simp add: sync_activity_def sync_activity_try_def session_get_def activity_owner_def
      day_owner_def owned_trip_iff split: option.splits)

lemma sync_budget_item_tombstone:
  "is_deleted d \<Longrightarrow>
   sync_budget_item e uid strat d st =
     (case UUID e (id_s d) of
        None \<Rightarrow> st
      | Some k \<Rightarrow>
          if budget_item_owner (session st) k = Some uid
          then count_budget_item (st\<lparr>session := delete_budget_item k (session st)\<rparr>)
          else st)"
  by (auto simp add: sync_budget_item_def sync_budget_item_try_def session_get_def
      budget_item_owner_def owned_trip_iff split: option.splits)

lemma sync_note_tombstone:
  "is_deleted d \<Longrightarrow>
   sync_note e uid strat d st =
     (case UUID e (id_s d) of
        None \<Rightarrow> st
      | Some k \<Rightarrow>
          if note_owner (session st) k = Some uid
          then count_note (st\<lparr>session := delete_note k (session st)\<rparr>)
          else st)"
  by (auto simp add: sync_note_def sync_note_try_def session_get_def note_owner_def owned_trip_iff
      split: option.splits)

section \<open>The claims\<close>

text \<open>
  Claim C3 (the conflict policy evaluator). The evaluator answers \<open>True\<close> when there is
  no server timestamp, \<open>True\<close> under \<^verbatim>\<open>client_wins\<close>, \<open>False\<close> under
  \<^verbatim>\<open>server_wins\<close>, and under \<^verbatim>\<open>newer_wins\<close> and \<^verbatim>\<open>merge\<close> the strict
  comparison of the parsed client timestamp with the server's (the lemmas of the section on
  the conflict policy). The comparison is Python's: a client timestamp with a zone marker
  parses to an aware value, the server's timestamps are naive, and for that pair the
  evaluator does not return a boolean but raises \<^verbatim>\<open>TypeError\<close>.
\<close>

theorem should_update_aware_against_naive:
  "CHR ''T'' \<in> set ts \<Longrightarrow> endswith_Z ts \<Longrightarrow> fromisoformat e (replace_Z ts) = Some (Aware c)
   \<Longrightarrow> strat = Newer_wins \<or> strat = Merge
   \<Longrightarrow> should_update e ts (Some (Naive s)) strat = Inl TypeError"
  by (auto simp add: should_update_def parse_timestamp_def)

theorem should_update_aware_against_naive_witness:
  "should_update ex_env ''2024-01-15T10:30:00Z'' (Some (Naive 1704873600000000)) Newer_wins
     = Inl TypeError"
  using should_update_aware_against_naive
    [of "''2024-01-15T10:30:00Z''" ex_env 1705314600000000 Newer_wins 1704873600000000]
  by (simp add: ex_env_def ex_fromisoformat_def endswith_Z_def replace_Z_def)

text \<open>
  Claim C8 (tombstones). An incoming record flagged \<^verbatim>\<open>is_deleted\<close>, of any of the five
  entity types: when its id resolves to a stored row whose ownership chain ends at the
  caller, the row is deleted (it is absent afterwards) and the entity's uploaded counter
  grows by one; in every other case (the id is malformed, no such row, or the chain ends
  elsewhere or nowhere) the state is returned unchanged. The step is a total function, so
  the call goes on.
\<close>

theorem tombstone_deletes_owned_row_else_ignored:
  "(is_deleted td \<longrightarrow>
      sync_trip e uid strat td st =
        (case UUID e (id_s td) of
           None \<Rightarrow> st
         | Some k \<Rightarrow>
             if trip_owner (session st) k = Some uid
             then count_trip (st\<lparr>session := delete_trip k (session st)\<rparr>)
             else st))
   \<and> (is_deleted dd \<longrightarrow>
      sync_day e uid strat dd st =
        (case UUID e (id_s dd) of
           None \<Rightarrow> st
         | Some k \<Rightarrow>
             if day_owner (session st) k = Some uid
             then count_day (st\<lparr>session := delete_day k (session st)\<rparr>)
             else st))
   \<and> (is_deleted ad \<longrightarrow>
      sync_activity e uid strat ad st =
        (case UUID e (id_s ad) of
           None \<Rightarrow> st
         | Some k \<Rightarrow>
             if activity_owner (session st) k = Some uid
             then count_activity (st\<lparr>session := delete_activity k (session st)\<rparr>)
             else st))
   \<and> (is_deleted bd \<longrightarrow>
      sync_budget_item e uid strat bd st =
        (case UUID e (id_s bd) of
           None \<Rightarrow> st
         | Some k \<Rightarrow>
             if budget_item_owner (session st) k = Some uid
             then count_budget_item (st\<lparr>session := delete_budget_item k (session st)\<rparr>)
             else st))
   \<and> (is_deleted nd \<longrightarrow>
      sync_note e uid strat nd st =
        (case UUID e (id_s nd) of
           None \<Rightarrow> st
         | Some k \<Rightarrow>
             if note_owner (session st) k = Some uid
             then count_note (st\<lparr>session := delete_note k (session st)\<rparr>)
             else st))
   \<and> map_of (tbl_trips (delete_trip k s)) k = None
   \<and> map_of (tbl_days (delete_day k s)) k = None
   \<and> map_of (tbl_activities (delete_activity k s)) k = None
   \<and> map_of (tbl_budget_items (delete_budget_item k s)) k = None
   \<and> map_of (tbl_notes (delete_note k s)) k = None
   \<and> trips_uploaded (response (count_trip st)) = trips_uploaded (response st) + 1
   \<and> days_uploaded (response (count_day st)) = days_uploaded (response st) + 1
   \<and> activities_uploaded (response (count_activity st)) = activities_uploaded (response st) + 1
   \<and> budget_items_uploaded (response (count_budget_item st))
        = budget_items_uploaded (response st) + 1
   \<and> notes_uploaded (response (count_note st)) = notes_uploaded (response st) + 1"
  by (simp add: sync_trip_tombstone sync_day_tombstone sync_activity_tombstone
      sync_budget_item_tombstone sync_note_tombstone row_absent_after_delete
      count_trip_def count_day_def count_activity_def count_budget_item_def count_note_def)

theorem tombstone_deletes_owned_row_else_ignored_witness:
  "sync_trip ex_env alice Newer_wins
       (trip_record ''00000000-0000-0000-0000-000000000001'' ''2024-02-01T00:00:00'' True None)
       ex_state
     = count_trip (ex_state\<lparr>session := delete_trip 0x01 ex_db\<rparr>)
   \<and> sync_day ex_env alice Newer_wins
       (day_record ''00000000-0000-0000-0000-000000000020'' ''2024-02-01T00:00:00'' True
          ''00000000-0000-0000-0000-000000000002'' None)
       ex_state
     = ex_state
   \<and> sync_activity ex_env alice Newer_wins
       (activity_record ''00000000-0000-0000-0000-000000000041'' ''2024-02-01T00:00:00'' True
          ''00000000-0000-0000-0000-000000000010'' None)
       ex_state
     = ex_state
   \<and> sync_budget_item ex_env alice Newer_wins
       (budget_item_record ''not-a-uuid'' ''2024-02-01T00:00:00'' True
          ''00000000-0000-0000-0000-000000000001'' None)
       ex_state
     = ex_state
   \<and> sync_note ex_env alice Newer_wins
       (note_record ''00000000-0000-0000-0000-000000000013'' ''2024-02-01T00:00:00'' True
          ''00000000-0000-0000-0000-000000000001'' None)
       ex_state
     = count_note (ex_state\<lparr>session := delete_note 0x13 ex_db\<rparr>)"
  using tombstone_deletes_owned_row_else_ignored
    [of "trip_record ''00000000-0000-0000-0000-000000000001'' ''2024-02-01T00:00:00'' True None"
        ex_env alice Newer_wins ex_state
        "day_record ''00000000-0000-0000-0000-000000000020'' ''2024-02-01T00:00:00'' True
          ''00000000-0000-0000-0000-000000000002'' None"
        "activity_record ''00000000-0000-0000-0000-000000000041'' ''2024-02-01T00:00:00'' True
          ''00000000-0000-0000-0000-000000000010'' None"
        "budget_item_record ''not-a-uuid'' ''2024-02-01T00:00:00'' True
          ''00000000-0000-0000-0000-000000000001'' None"
        "note_record ''00000000-0000-0000-0000-000000000013'' ''2024-02-01T00:00:00'' True
          ''00000000-0000-0000-0000-000000000001'' None"]
  by (simp add: trip_record_def day_record_def activity_record_def budget_item_record_def
      note_record_def ex_env_def ex_UUID_def ex_state_def initial_state_def ex_db_def
      trip_owner_def day_owner_def activity_owner_def budget_item_owner_def note_owner_def
      ex_trip_def ex_day_def ex_note_def alice_def bob_def)

text \<open>
  Claim C10 (an activity whose day is missing). For a stored activity whose
  \<^verbatim>\<open>day_id\<close> resolves to no day, an incoming record that is not a tombstone is
  decided by the conflict policy alone: the result does not depend on the caller. When the
  policy says yes the row is overwritten with the patched fields and
  \<^verbatim>\<open>activities_uploaded\<close> grows by one.
\<close>

theorem orphan_activity_written_for_any_caller:
  "UUID e (id_s d) = Some k \<Longrightarrow> map_of (tbl_activities (session st)) k = Some a
   \<Longrightarrow> map_of (tbl_days (session st)) (Activity.day_id a) = None \<Longrightarrow> \<not> is_deleted d
   \<Longrightarrow> sync_activity e uid strat d st =
         (case should_update e (SyncEntity.local_updated_at d)
                 (Some (Activity.local_updated_at a)) strat of
            Inl err \<Rightarrow> st
          | Inr should \<Rightarrow>
              if should
              then count_activity
                (st\<lparr>session := add_activity k (apply_activity_updates e d a) (session st)\<rparr>)
              else st)
       \<and> map_of (tbl_activities (add_activity k a' s)) k = Some a'
       \<and> activities_uploaded (response (count_activity st'))
            = activities_uploaded (response st') + 1"
  by (simp add: sync_activity_existing add_activity_def update_conv count_activity_def)

theorem orphan_activity_written_for_any_caller_witness:
  "map_option Activity.title
     (map_of (tbl_activities (session
        (sync_activity ex_env bob Client_wins
           (activity_record ''00000000-0000-0000-0000-000000000031'' ''2024-01-10T08:00:00'' False
              ''00000000-0000-0000-0000-000000000010'' (Some ''Hacked''))
           ex_state))) 0x31)
     = Some ''Hacked''
   \<and> activities_uploaded (response
        (sync_activity ex_env bob Client_wins
           (activity_record ''00000000-0000-0000-0000-000000000031'' ''2024-01-10T08:00:00'' False
              ''00000000-0000-0000-0000-000000000010'' (Some ''Hacked''))
           ex_state)) = 1"
  using orphan_activity_written_for_any_caller
    [of ex_env
        "activity_record ''00000000-0000-0000-0000-000000000031'' ''2024-01-10T08:00:00'' False
              ''00000000-0000-0000-0000-000000000010'' (Some ''Hacked'')"
        "0x31" ex_state "ex_activity 0x99" bob Client_wins]
  by (simp add: activity_record_def ex_env_def ex_UUID_def ex_state_def initial_state_def
      ex_db_def should_update_client_wins count_activity_def add_activity_def
      apply_activity_updates_def patch_def patch_opt_def initial_response_def ex_activity_def)

text \<open>
  Claim C1 (a rejected client write). An incoming record that is not a tombstone matches a
  stored row owned by the caller, and the conflict policy answers no. For a trip the code
  appends one conflict record with resolution \<^verbatim>\<open>server_wins\<close> and changes nothing
  else. For a day, an activity, a budget item and a note it returns the state as it was:
  the row and the counter are untouched, and no conflict record is appended.
\<close>

theorem rejected_write_recorded_for_trips_only:
  "(UUID e (id_s td) = Some tk \<and> map_of (tbl_trips (session st)) tk = Some t
      \<and> trip_owner (session st) tk = Some uid \<and> \<not> is_deleted td
      \<and> should_update e (SyncEntity.local_updated_at td) (Some (Trip.local_updated_at t)) strat
          = Inr False
      \<longrightarrow> sync_trip e uid strat td st
          = st\<lparr>conflicts_acc := conflicts_acc st @ [trip_conflict e td t]\<rparr>)
   \<and> (UUID e (id_s dd) = Some dk \<and> map_of (tbl_days (session st)) dk = Some d
      \<and> day_owner (session st) dk = Some uid \<and> \<not> is_deleted dd
      \<and> should_update e (SyncEntity.local_updated_at dd) (Some (Day.local_updated_at d)) strat
          = Inr False
      \<longrightarrow> sync_day e uid strat dd st = st)
   \<and> (UUID e (id_s ad) = Some ak \<and> map_of (tbl_activities (session st)) ak = Some a
      \<and> activity_owner (session st) ak = Some uid \<and> \<not> is_deleted ad
      \<and> should_update e (SyncEntity.local_updated_at ad) (Some (Activity.local_updated_at a)) strat
          = Inr False
      \<longrightarrow> sync_activity e uid strat ad st = st)
   \<and> (UUID e (id_s bd) = Some bk \<and> map_of (tbl_budget_items (session st)) bk = Some b
      \<and> budget_item_owner (session st) bk = Some uid \<and> \<not> is_deleted bd
      \<and> should_update e (SyncEntity.local_updated_at bd) (Some (BudgetItem.local_updated_at b)) strat
          = Inr False
      \<longrightarrow> sync_budget_item e uid strat bd st = st)
   \<and> (UUID e (id_s nd) = Some nk \<and> map_of (tbl_notes (session st)) nk = Some n
      \<and> note_owner (session st) nk = Some uid \<and> \<not> is_deleted nd
      \<and> should_update e (SyncEntity.local_updated_at nd) (Some (Note.local_updated_at n)) strat
          = Inr False
      \<longrightarrow> sync_note e uid strat nd st = st)"
proof (intro conjI impI)
  assume "UUID e (id_s td) = Some tk \<and> map_of (tbl_trips (session st)) tk = Some t
      \<and> trip_owner (session st) tk = Some uid \<and> \<not> is_deleted td
      \<and> should_update e (SyncEntity.local_updated_at td) (Some (Trip.local_updated_at t)) strat
          = Inr False"
  then show "sync_trip e uid strat td st
      = st\<lparr>conflicts_acc := conflicts_acc st @ [trip_conflict e td t]\<rparr>"
    by (auto simp add: sync_trip_existing trip_owner_def)
next
  assume "UUID e (id_s dd) = Some dk \<and> map_of (tbl_days (session st)) dk = Some d
      \<and> day_owner (session st) dk = Some uid \<and> \<not> is_deleted dd
      \<and> should_update e (SyncEntity.local_updated_at dd) (Some (Day.local_updated_at d)) strat
          = Inr False"
  then show "sync_day e uid strat dd st = st"
    by (auto simp add: sync_day_existing day_owner_def owned_trip_iff)
next
  assume "UUID e (id_s ad) = Some ak \<and> map_of (tbl_activities (session st)) ak = Some a
      \<and> activity_owner (session st) ak = Some uid \<and> \<not> is_deleted ad
      \<and> should_update e (SyncEntity.local_updated_at ad) (Some (Activity.local_updated_at a)) strat
          = Inr False"
  then show "sync_activity e uid strat ad st = st"
    by (auto simp add: sync_activity_existing activity_owner_def day_owner_def owned_trip_iff
        split: option.splits)
next
  assume "UUID e (id_s bd) = Some bk \<and> map_of (tbl_budget_items (session st)) bk = Some b
      \<and> budget_item_owner (session st) bk = Some uid \<and> \<not> is_deleted bd
      \<and> should_update e (SyncEntity.local_updated_at bd) (Some (BudgetItem.local_updated_at b)) strat
          = Inr False"
  then show "sync_budget_item e uid strat bd st = st"
    by (auto simp add: sync_budget_item_existing budget_item_owner_def owned_trip_iff)
next
  assume "UUID e (id_s nd) = Some nk \<and> map_of (tbl_notes (session st)) nk = Some n
      \<and> note_owner (session st) nk = Some uid \<and> \<not> is_deleted nd
      \<and> should_update e (SyncEntity.local_updated_at nd) (Some (Note.local_updated_at n)) strat
          = Inr False"
  then show "sync_note e uid strat nd st = st"
    by (auto simp add: sync_note_existing note_owner_def owned_trip_iff)
qed


theorem rejected_write_recorded_for_trips_only_witness:
  "conflicts_acc (sync_trip ex_env alice Newer_wins
       (trip_record ''00000000-0000-0000-0000-000000000001'' ''2024-01-10T08:00:00'' False
          (Some ''Older Client Update''))
       ex_state)
     = [\<lparr>entity_type = ''trip'', entity_id = ''00000000-0000-0000-0000-000000000001'',
         client_updated_at = ''2024-01-10T08:00:00'', server_updated_at = ''2024-01-15T10:30:00'',
         resolution = ''server_wins''\<rparr>]
   \<and> sync_day ex_env alice Newer_wins
       (day_record ''00000000-0000-0000-0000-000000000010'' ''2024-01-10T08:00:00'' False
          ''00000000-0000-0000-0000-000000000001'' (Some 2))
       ex_state = ex_state
   \<and> sync_activity ex_env alice Newer_wins
       (activity_record ''00000000-0000-0000-0000-000000000011'' ''2024-01-10T08:00:00'' False
          ''00000000-0000-0000-0000-000000000010'' (Some ''Lunch''))
       ex_state = ex_state
   \<and> sync_budget_item ex_env alice Newer_wins
       (budget_item_record ''00000000-0000-0000-0000-000000000012'' ''2024-01-10T08:00:00'' False
          ''00000000-0000-0000-0000-000000000001'' (Some 750))
       ex_state = ex_state
   \<and> sync_note ex_env alice Newer_wins
       (note_record ''00000000-0000-0000-0000-000000000013'' ''2024-01-10T08:00:00'' False
          ''00000000-0000-0000-0000-000000000001'' (Some ''Older note''))
       ex_state = ex_state
   \<and> conflicts_acc ex_state = []"
  using rejected_write_recorded_for_trips_only
    [of ex_env
        "trip_record ''00000000-0000-0000-0000-000000000001'' ''2024-01-10T08:00:00'' False
          (Some ''Older Client Update'')"
        "0x01" ex_state "ex_trip alice ''Server Trip''" alice Newer_wins
        "day_record ''00000000-0000-0000-0000-000000000010'' ''2024-01-10T08:00:00'' False
          ''00000000-0000-0000-0000-000000000001'' (Some 2)"
        "0x10" "ex_day 0x01"
        "activity_record ''00000000-0000-0000-0000-000000000011'' ''2024-01-10T08:00:00'' False
          ''00000000-0000-0000-0000-000000000010'' (Some ''Lunch'')"
        "0x11" "ex_activity 0x10"
        "budget_item_record ''00000000-0000-0000-0000-000000000012'' ''2024-01-10T08:00:00'' False
          ''00000000-0000-0000-0000-000000000001'' (Some 750)"
        "0x12" "ex_budget_item 0x01"
        "note_record ''00000000-0000-0000-0000-000000000013'' ''2024-01-10T08:00:00'' False
          ''00000000-0000-0000-0000-000000000001'' (Some ''Older note'')"
        "0x13" "ex_note 0x01"]
  by (simp add: trip_record_def day_record_def activity_record_def budget_item_record_def
      note_record_def ex_env_def ex_UUID_def ex_fromisoformat_def ex_isoformat_def ex_state_def
      initial_state_def ex_db_def trip_owner_def day_owner_def activity_owner_def
      budget_item_owner_def note_owner_def ex_trip_def ex_day_def ex_activity_def
      ex_budget_item_def ex_note_def alice_def bob_def should_update_def parse_timestamp_def
      endswith_Z_def trip_conflict_def)

text \<open>
  Claim C4 (\<^verbatim>\<open>server_wins\<close>), as amended. Under \<^verbatim>\<open>server_wins\<close> an incoming
  record that is not a tombstone and matches a stored row owned by the caller is never
  applied, whatever the two timestamps are: the store and the response counters stay as
  they were. For a trip the code records the rejection: it appends one conflict record
  with resolution \<^verbatim>\<open>server_wins\<close>.
\<close>

theorem server_wins_never_applies:
  "(UUID e (id_s td) = Some tk \<and> map_of (tbl_trips (session st)) tk = Some t
      \<and> trip_owner (session st) tk = Some uid \<and> \<not> is_deleted td
      \<longrightarrow> sync_trip e uid Server_wins td st
          = st\<lparr>conflicts_acc := conflicts_acc st @ [trip_conflict e td t]\<rparr>)
   \<and> (UUID e (id_s dd) = Some dk \<and> day_owner (session st) dk = Some uid \<and> \<not> is_deleted dd
      \<longrightarrow> session (sync_day e uid Server_wins dd st) = session st
          \<and> response (sync_day e uid Server_wins dd st) = response st)
   \<and> (UUID e (id_s ad) = Some ak \<and> activity_owner (session st) ak = Some uid \<and> \<not> is_deleted ad
      \<longrightarrow> session (sync_activity e uid Server_wins ad st) = session st
          \<and> response (sync_activity e uid Server_wins ad st) = response st)
   \<and> (UUID e (id_s bd) = Some bk \<and> budget_item_owner (session st) bk = Some uid
      \<and> \<not> is_deleted bd
      \<longrightarrow> session (sync_budget_item e uid Server_wins bd st) = session st
          \<and> response (sync_budget_item e uid Server_wins bd st) = response st)
   \<and> (UUID e (id_s nd) = Some nk \<and> note_owner (session st) nk = Some uid \<and> \<not> is_deleted nd
      \<longrightarrow> session (sync_note e uid Server_wins nd st) = session st
          \<and> response (sync_note e uid Server_wins nd st) = response st)"
proof (intro conjI impI)
  assume "UUID e (id_s td) = Some tk \<and> map_of (tbl_trips (session st)) tk = Some t
      \<and> trip_owner (session st) tk = Some uid \<and> \<not> is_deleted td"
  then show "sync_trip e uid Server_wins td st
      = st\<lparr>conflicts_acc := conflicts_acc st @ [trip_conflict e td t]\<rparr>"
    by (auto simp add: sync_trip_existing trip_owner_def should_update_server_wins)
next
  assume h: "UUID e (id_s dd) = Some dk \<and> day_owner (session st) dk = Some uid \<and> \<not> is_deleted dd"
  then have "sync_day e uid Server_wins dd st = st"
    by (auto simp add: sync_day_existing day_owner_def owned_trip_iff should_update_server_wins
        split: option.splits)
  then show "session (sync_day e uid Server_wins dd st) = session st"
    and "response (sync_day e uid Server_wins dd st) = response st"
    by simp_all
next
  assume h: "UUID e (id_s ad) = Some ak \<and> activity_owner (session st) ak = Some uid
      \<and> \<not> is_deleted ad"
  then have "sync_activity e uid Server_wins ad st = st"
    by (auto simp add: sync_activity_existing activity_owner_def day_owner_def owned_trip_iff
        should_update_server_wins split: option.splits)
  then show "session (sync_activity e uid Server_wins ad st) = session st"
    and "response (sync_activity e uid Server_wins ad st) = response st"
    by simp_all
next
  assume h: "UUID e (id_s bd) = Some bk \<and> budget_item_owner (session st) bk = Some uid
      \<and> \<not> is_deleted bd"
  then have "sync_budget_item e uid Server_wins bd st = st"
    by (auto simp add: sync_budget_item_existing budget_item_owner_def owned_trip_iff
        should_update_server_wins split: option.splits)
  then show "session (sync_budget_item e uid Server_wins bd st) = session st"
    and "response (sync_budget_item e uid Server_wins bd st) = response st"
    by simp_all
next
  assume h: "UUID e (id_s nd) = Some nk \<and> note_owner (session st) nk = Some uid \<and> \<not> is_deleted nd"
  then have "sync_note e uid Server_wins nd st = st"
    by (auto simp add: sync_note_existing note_owner_def owned_trip_iff should_update_server_wins
        split: option.splits)
  then show "session (sync_note e uid Server_wins nd st) = session st"
    and "response (sync_note e uid Server_wins nd st) = response st"
    by simp_all
qed

theorem server_wins_never_applies_witness:
  "sync_trip ex_env alice Server_wins
       (trip_record ''00000000-0000-0000-0000-000000000001'' ''2024-02-01T00:00:00'' False
          (Some ''Server Should Win''))
       ex_state
     = ex_state\<lparr>conflicts_acc :=
         [\<lparr>entity_type = ''trip'', entity_id = ''00000000-0000-0000-0000-000000000001'',
           client_updated_at = ''2024-02-01T00:00:00'',
           server_updated_at = ''2024-01-15T10:30:00'', resolution = ''server_wins''\<rparr>]\<rparr>
   \<and> session (sync_day ex_env alice Server_wins
       (day_record ''00000000-0000-0000-0000-000000000010'' ''2024-02-01T00:00:00'' False
          ''00000000-0000-0000-0000-000000000001'' (Some 2))
       ex_state) = ex_db
   \<and> session (sync_activity ex_env alice Server_wins
       (activity_record ''00000000-0000-0000-0000-000000000011'' ''2024-02-01T00:00:00'' False
          ''00000000-0000-0000-0000-000000000010'' (Some ''Lunch''))
       ex_state) = ex_db
   \<and> session (sync_budget_item ex_env alice Server_wins
       (budget_item_record ''00000000-0000-0000-0000-000000000012'' ''2024-02-01T00:00:00'' False
          ''00000000-0000-0000-0000-000000000001'' (Some 750))
       ex_state) = ex_db
   \<and> session (sync_note ex_env alice Server_wins
       (note_record ''00000000-0000-0000-0000-000000000013'' ''2024-02-01T00:00:00'' False
          ''00000000-0000-0000-0000-000000000001'' (Some ''Newer note''))
       ex_state) = ex_db"
  using server_wins_never_applies
    [of ex_env
        "trip_record ''00000000-0000-0000-0000-000000000001'' ''2024-02-01T00:00:00'' False
          (Some ''Server Should Win'')"
        "0x01" ex_state "ex_trip alice ''Server Trip''" alice
        "day_record ''00000000-0000-0000-0000-000000000010'' ''2024-02-01T00:00:00'' False
          ''00000000-0000-0000-0000-000000000001'' (Some 2)"
        "0x10"
        "activity_record ''00000000-0000-0000-0000-000000000011'' ''2024-02-01T00:00:00'' False
          ''00000000-0000-0000-0000-000000000010'' (Some ''Lunch'')"
        "0x11"
        "budget_item_record ''00000000-0000-0000-0000-000000000012'' ''2024-02-01T00:00:00'' False
          ''00000000-0000-0000-0000-000000000001'' (Some 750)"
        "0x12"
        "note_record ''00000000-0000-0000-0000-000000000013'' ''2024-02-01T00:00:00'' False
          ''00000000-0000-0000-0000-000000000001'' (Some ''Newer note'')"
        "0x13"]
  by (simp add: trip_record_def day_record_def activity_record_def budget_item_record_def
      note_record_def ex_env_def ex_UUID_def ex_isoformat_def ex_state_def
      initial_state_def ex_db_def trip_owner_def day_owner_def activity_owner_def
      budget_item_owner_def note_owner_def ex_trip_def ex_day_def ex_activity_def
      ex_budget_item_def ex_note_def alice_def bob_def trip_conflict_def)

text \<open>The claim as stated fails for a trip: under \<^verbatim>\<open>server_wins\<close> the rejected
  write of the test suite's scenario leaves a conflict entry behind.\<close>

theorem server_wins_records_trip_conflict:
  "conflicts_acc (sync_trip ex_env alice Server_wins
       (trip_record ''00000000-0000-0000-0000-000000000001'' ''2024-02-01T00:00:00'' False
          (Some ''Server Should Win''))
       ex_state)
     = [\<lparr>entity_type = ''trip'', entity_id = ''00000000-0000-0000-0000-000000000001'',
         client_updated_at = ''2024-02-01T00:00:00'',
         server_updated_at = ''2024-01-15T10:30:00'', resolution = ''server_wins''\<rparr>]
   \<and> conflicts_acc ex_state = []"
  by (simp add: sync_trip_def sync_trip_try_def session_get_def should_update_def
      trip_record_def ex_env_def ex_UUID_def ex_isoformat_def ex_state_def
      initial_state_def ex_db_def ex_trip_def alice_def bob_def trip_conflict_def)



lemma sync_day_new:
  "UUID e (id_s d) = Some k \<Longrightarrow> map_of (tbl_days (session st)) k = None \<Longrightarrow> \<not> is_deleted d
   \<Longrightarrow> sync_day e uid strat d st =
       (case UUID e (DaySyncData.trip_id d) of
          None \<Rightarrow> st
        | Some tk \<Rightarrow>
            if trip_owner (session st) tk = Some uid
            then count_day (st\<lparr>session := add_day k (new_day e tk d) (session st)\<rparr>)
            else st)"
  by (auto simp add: sync_day_create sync_day_create_skip owned_trip_iff split: option.splits)

lemma sync_budget_item_new:
  "UUID e (id_s d) = Some k \<Longrightarrow> map_of (tbl_budget_items (session st)) k = None
   \<Longrightarrow> \<not> is_deleted d
   \<Longrightarrow> sync_budget_item e uid strat d st =
       (case UUID e (BudgetItemSyncData.trip_id d) of
          None \<Rightarrow> st
        | Some tk \<Rightarrow>
            if trip_owner (session st) tk = Some uid
            then count_budget_item
              (st\<lparr>session := add_budget_item k (new_budget_item e tk d) (session st)\<rparr>)
            else st)"
  by (auto simp add: sync_budget_item_create sync_budget_item_create_skip owned_trip_iff
      split: option.splits)

lemma sync_note_new:
  "UUID e (id_s d) = Some k \<Longrightarrow> map_of (tbl_notes (session st)) k = None \<Longrightarrow> \<not> is_deleted d
   \<Longrightarrow> sync_note e uid strat d st =
       (case UUID e (NoteSyncData.trip_id d) of
          None \<Rightarrow> st
        | Some tk \<Rightarrow>
            if trip_owner (session st) tk = Some uid
            then count_note (st\<lparr>session := add_note k (new_note e tk d) (session st)\<rparr>)
            else st)"
  by (auto simp add: sync_note_create sync_note_create_skip owned_trip_iff split: option.splits)

lemma sync_activity_new:
  "UUID e (id_s d) = Some k \<Longrightarrow> map_of (tbl_activities (session st)) k = None
   \<Longrightarrow> \<not> is_deleted d
   \<Longrightarrow> sync_activity e uid strat d st =
       (case UUID e (ActivitySyncData.day_id d) of
          None \<Rightarrow> st
        | Some dk \<Rightarrow>
            if day_owner (session st) dk = Some uid
            then count_activity
              (st\<lparr>session := add_activity k (new_activity e dk d) (session st)\<rparr>)
            else st)"
  by (auto simp add: sync_activity_create sync_activity_create_skip owned_trip_iff day_owner_def
      split: option.splits)






section \<open>What each reconciler leaves alone\<close>



lemma sync_activity_frame:
  "tbl_trips (session (sync_activity e uid strat d st)) = tbl_trips (session st)"
  "tbl_days (session (sync_activity e uid strat d st)) = tbl_days (session st)"
  "tbl_budget_items (session (sync_activity e uid strat d st)) = tbl_budget_items (session st)"
  "tbl_notes (session (sync_activity e uid strat d st)) = tbl_notes (session st)"
  "trips_uploaded (response (sync_activity e uid strat d st)) = trips_uploaded (response st)"
  "days_uploaded (response (sync_activity e uid strat d st)) = days_uploaded (response st)"
  "budget_items_uploaded (response (sync_activity e uid strat d st))
     = budget_items_uploaded (response st)"
  "notes_uploaded (response (sync_activity e uid strat d st)) = notes_uploaded (response st)"
  "conflicts_acc (sync_activity e uid strat d st) = conflicts_acc st"
  by (simp_all add: sync_activity_def sync_activity_try_def session_get_def
      count_activity_def add_activity_def delete_activity_def split: sum.splits option.splits)

lemma sync_day_frame:
  "tbl_trips (session (sync_day e uid strat d st)) = tbl_trips (session st)"
  "tbl_budget_items (session (sync_day e uid strat d st)) = tbl_budget_items (session st)"
  "tbl_notes (session (sync_day e uid strat d st)) = tbl_notes (session st)"
  "trips_uploaded (response (sync_day e uid strat d st)) = trips_uploaded (response st)"
  "activities_uploaded (response (sync_day e uid strat d st)) = activities_uploaded (response st)"
  "budget_items_uploaded (response (sync_day e uid strat d st))
     = budget_items_uploaded (response st)"
  "notes_uploaded (response (sync_day e uid strat d st)) = notes_uploaded (response st)"
  "conflicts_acc (sync_day e uid strat d st) = conflicts_acc st"
  by (simp_all add: sync_day_def sync_day_try_def session_get_def
      count_day_def add_day_def delete_day_def split: sum.splits option.splits)




lemma fold_sync_activity_frame:
  "tbl_trips (session (fold (sync_activity e uid strat) ds st)) = tbl_trips (session st)"
  "tbl_days (session (fold (sync_activity e uid strat) ds st)) = tbl_days (session st)"
  "tbl_budget_items (session (fold (sync_activity e uid strat) ds st))
     = tbl_budget_items (session st)"
  "tbl_notes (session (fold (sync_activity e uid strat) ds st)) = tbl_notes (session st)"
  "trips_uploaded (response (fold (sync_activity e uid strat) ds st))
     = trips_uploaded (response st)"
  "days_uploaded (response (fold (sync_activity e uid strat) ds st))
     = days_uploaded (response st)"
  "budget_items_uploaded (response (fold (sync_activity e uid strat) ds st))
     = budget_items_uploaded (response st)"
  "notes_uploaded (response (fold (sync_activity e uid strat) ds st))
     = notes_uploaded (response st)"
  "conflicts_acc (fold (sync_activity e uid strat) ds st) = conflicts_acc st"
  by (induction ds arbitrary: st; simp add: sync_activity_frame)+

lemma fold_sync_day_frame:
  "tbl_trips (session (fold (sync_day e uid strat) ds st)) = tbl_trips (session st)"
  "tbl_budget_items (session (fold (sync_day e uid strat) ds st)) = tbl_budget_items (session st)"
  "tbl_notes (session (fold (sync_day e uid strat) ds st)) = tbl_notes (session st)"
  "trips_uploaded (response (fold (sync_day e uid strat) ds st)) = trips_uploaded (response st)"
  "activities_uploaded (response (fold (sync_day e uid strat) ds st))
     = activities_uploaded (response st)"
  "budget_items_uploaded (response (fold (sync_day e uid strat) ds st))
     = budget_items_uploaded (response st)"
  "notes_uploaded (response (fold (sync_day e uid strat) ds st)) = notes_uploaded (response st)"
  "conflicts_acc (fold (sync_day e uid strat) ds st) = conflicts_acc st"
  by (induction ds arbitrary: st; simp add: sync_day_frame)+




section \<open>Primary keys stay unique\<close>













section \<open>The upload phase leaves the download fields alone\<close>




section \<open>The download queries\<close>






lemma sync_data_store: "fst (sync_data e uid request db) = session (upload e uid request (initial_state e db))"
  by (simp add: sync_data_def Let_def)







section \<open>Rows of other users\<close>

lemma map_of_filter_keep:
  "map_of xs k = Some v \<Longrightarrow> P (k, v) \<Longrightarrow> map_of (filter P xs) k = Some v"
  by (induction xs) (auto split: if_splits)

lemma foreign_rows_kept_refl: "foreign_rows_kept uid s s"
  by (simp add: foreign_rows_kept_def)

lemma foreign_owner_kept:
  assumes "foreign_rows_kept uid s s'" and "A \<noteq> uid"
  shows "trip_owner s k = Some A \<Longrightarrow> trip_owner s' k = Some A"
    and "day_owner s k = Some A \<Longrightarrow> day_owner s' k = Some A"
    and "activity_owner s k = Some A \<Longrightarrow> activity_owner s' k = Some A"
    and "budget_item_owner s k = Some A \<Longrightarrow> budget_item_owner s' k = Some A"
    and "note_owner s k = Some A \<Longrightarrow> note_owner s' k = Some A"
proof -
  have t: "\<And>k. trip_owner s k = Some A \<Longrightarrow> map_of (tbl_trips s') k = map_of (tbl_trips s) k"
    using assms by (auto simp add: foreign_rows_kept_def)
  then show trip: "\<And>k. trip_owner s k = Some A \<Longrightarrow> trip_owner s' k = Some A"
    by (simp add: trip_owner_def)
  have d: "\<And>k. day_owner s k = Some A \<Longrightarrow> map_of (tbl_days s') k = map_of (tbl_days s) k"
    using assms by (auto simp add: foreign_rows_kept_def)
  show day: "\<And>k. day_owner s k = Some A \<Longrightarrow> day_owner s' k = Some A"
  proof -
    fix k assume h: "day_owner s k = Some A"
    then obtain dy where dy: "map_of (tbl_days s) k = Some dy" "trip_owner s (Day.trip_id dy) = Some A"
      by (auto simp add: day_owner_def split: option.splits)
    with d[OF h] trip[OF dy(2)] show "day_owner s' k = Some A"
      by (simp add: day_owner_def)
  qed
  have a: "\<And>k. activity_owner s k = Some A
      \<Longrightarrow> map_of (tbl_activities s') k = map_of (tbl_activities s) k"
    using assms by (auto simp add: foreign_rows_kept_def)
  show "activity_owner s k = Some A \<Longrightarrow> activity_owner s' k = Some A"
  proof -
    assume h: "activity_owner s k = Some A"
    then obtain ac where ac: "map_of (tbl_activities s) k = Some ac"
        "day_owner s (Activity.day_id ac) = Some A"
      by (auto simp add: activity_owner_def split: option.splits)
    with a[OF h] day[OF ac(2)] show "activity_owner s' k = Some A"
      by (simp add: activity_owner_def)
  qed
  have b: "\<And>k. budget_item_owner s k = Some A
      \<Longrightarrow> map_of (tbl_budget_items s') k = map_of (tbl_budget_items s) k"
    using assms by (auto simp add: foreign_rows_kept_def)
  show "budget_item_owner s k = Some A \<Longrightarrow> budget_item_owner s' k = Some A"
  proof -
    assume h: "budget_item_owner s k = Some A"
    then obtain bi where bi: "map_of (tbl_budget_items s) k = Some bi"
        "trip_owner s (BudgetItem.trip_id bi) = Some A"
      by (auto simp add: budget_item_owner_def split: option.splits)
    with b[OF h] trip[OF bi(2)] show "budget_item_owner s' k = Some A"
      by (simp add: budget_item_owner_def)
  qed
  have n: "\<And>k. note_owner s k = Some A \<Longrightarrow> map_of (tbl_notes s') k = map_of (tbl_notes s) k"
    using assms by (auto simp add: foreign_rows_kept_def)
  show "note_owner s k = Some A \<Longrightarrow> note_owner s' k = Some A"
  proof -
    assume h: "note_owner s k = Some A"
    then obtain nt where nt: "map_of (tbl_notes s) k = Some nt"
        "trip_owner s (Note.trip_id nt) = Some A"
      by (auto simp add: note_owner_def split: option.splits)
    with n[OF h] trip[OF nt(2)] show "note_owner s' k = Some A"
      by (simp add: note_owner_def)
  qed
qed

lemma foreign_rows_kept_trans:
  assumes 1: "foreign_rows_kept uid s s'" and 2: "foreign_rows_kept uid s' s''"
  shows "foreign_rows_kept uid s s''"
  unfolding foreign_rows_kept_def
proof (intro conjI allI impI)
  fix k A assume h: "trip_owner s k = Some A \<and> A \<noteq> uid"
  then have "trip_owner s' k = Some A" using foreign_owner_kept(1)[OF 1] by blast
  with h 1 2 show "map_of (tbl_trips s'') k = map_of (tbl_trips s) k"
    unfolding foreign_rows_kept_def by metis
next
  fix k A assume h: "day_owner s k = Some A \<and> A \<noteq> uid"
  then have "day_owner s' k = Some A" using foreign_owner_kept(2)[OF 1] by blast
  with h 1 2 show "map_of (tbl_days s'') k = map_of (tbl_days s) k"
    unfolding foreign_rows_kept_def by metis
next
  fix k A assume h: "activity_owner s k = Some A \<and> A \<noteq> uid"
  then have "activity_owner s' k = Some A" using foreign_owner_kept(3)[OF 1] by blast
  with h 1 2 show "map_of (tbl_activities s'') k = map_of (tbl_activities s) k"
    unfolding foreign_rows_kept_def by metis
next
  fix k A assume h: "budget_item_owner s k = Some A \<and> A \<noteq> uid"
  then have "budget_item_owner s' k = Some A" using foreign_owner_kept(4)[OF 1] by blast
  with h 1 2 show "map_of (tbl_budget_items s'') k = map_of (tbl_budget_items s) k"
    unfolding foreign_rows_kept_def by metis
next
  fix k A assume h: "note_owner s k = Some A \<and> A \<noteq> uid"
  then have "note_owner s' k = Some A" using foreign_owner_kept(5)[OF 1] by blast
  with h 1 2 show "map_of (tbl_notes s'') k = map_of (tbl_notes s) k"
    unfolding foreign_rows_kept_def by metis
qed

lemma foreign_rows_kept_delete_trip:
  assumes "trip_owner s k = Some uid"
  shows "foreign_rows_kept uid s (delete_trip k s)"
  unfolding foreign_rows_kept_def
proof (intro conjI allI impI)
  fix k' A assume h: "trip_owner s k' = Some A \<and> A \<noteq> uid"
  with assms have "k' \<noteq> k" by auto
  then show "map_of (tbl_trips (delete_trip k s)) k' = map_of (tbl_trips s) k'"
    by (simp add: delete_trip_def delete_conv)
next
  fix k' A assume h: "day_owner s k' = Some A \<and> A \<noteq> uid"
  then obtain dy where dy: "map_of (tbl_days s) k' = Some dy"
      "trip_owner s (Day.trip_id dy) = Some A"
    by (auto simp add: day_owner_def split: option.splits)
  with h assms have "Day.trip_id dy \<noteq> k" by auto
  with dy(1) show "map_of (tbl_days (delete_trip k s)) k' = map_of (tbl_days s) k'"
    by (simp add: delete_trip_def map_of_filter_keep)
next
  fix k' A assume h: "activity_owner s k' = Some A \<and> A \<noteq> uid"
  then obtain ac dy where ac: "map_of (tbl_activities s) k' = Some ac"
      "map_of (tbl_days s) (Activity.day_id ac) = Some dy"
      "trip_owner s (Day.trip_id dy) = Some A"
    by (auto simp add: activity_owner_def day_owner_def split: option.splits)
  with h assms have "Day.trip_id dy \<noteq> k" by auto
  with ac(2) have "\<not> under_trip s k (Activity.day_id ac)"
    by (simp add: under_trip_def)
  with ac(1) show "map_of (tbl_activities (delete_trip k s)) k' = map_of (tbl_activities s) k'"
    by (simp add: delete_trip_def map_of_filter_keep)
next
  fix k' A assume h: "budget_item_owner s k' = Some A \<and> A \<noteq> uid"
  then obtain bi where bi: "map_of (tbl_budget_items s) k' = Some bi"
      "trip_owner s (BudgetItem.trip_id bi) = Some A"
    by (auto simp add: budget_item_owner_def split: option.splits)
  with h assms have "BudgetItem.trip_id bi \<noteq> k" by auto
  with bi(1) show "map_of (tbl_budget_items (delete_trip k s)) k' = map_of (tbl_budget_items s) k'"
    by (simp add: delete_trip_def map_of_filter_keep)
next
  fix k' A assume h: "note_owner s k' = Some A \<and> A \<noteq> uid"
  then obtain nt where nt: "map_of (tbl_notes s) k' = Some nt"
      "trip_owner s (Note.trip_id nt) = Some A"
    by (auto simp add: note_owner_def split: option.splits)
  with h assms have "Note.trip_id nt \<noteq> k" by auto
  with nt(1) show "map_of (tbl_notes (delete_trip k s)) k' = map_of (tbl_notes s) k'"
    by (simp add: delete_trip_def map_of_filter_keep)
qed

lemma foreign_rows_kept_delete_day:
  assumes "day_owner s k = Some uid"
  shows "foreign_rows_kept uid s (delete_day k s)"
  unfolding foreign_rows_kept_def
proof (intro conjI allI impI)
  fix k' A assume h: "day_owner s k' = Some A \<and> A \<noteq> uid"
  with assms have "k' \<noteq> k" by auto
  then show "map_of (tbl_days (delete_day k s)) k' = map_of (tbl_days s) k'"
    by (simp add: delete_day_def delete_conv)
next
  fix k' A assume h: "activity_owner s k' = Some A \<and> A \<noteq> uid"
  then obtain ac where ac: "map_of (tbl_activities s) k' = Some ac"
      "day_owner s (Activity.day_id ac) = Some A"
    by (auto simp add: activity_owner_def split: option.splits)
  with h assms have "Activity.day_id ac \<noteq> k" by auto
  with ac(1) show "map_of (tbl_activities (delete_day k s)) k' = map_of (tbl_activities s) k'"
    by (simp add: delete_day_def map_of_filter_keep)
qed (simp_all add: delete_day_def)

lemma foreign_rows_kept_delete_other:
  "activity_owner s k = Some uid \<Longrightarrow> foreign_rows_kept uid s (delete_activity k s)"
  "budget_item_owner s k = Some uid \<Longrightarrow> foreign_rows_kept uid s (delete_budget_item k s)"
  "note_owner s k = Some uid \<Longrightarrow> foreign_rows_kept uid s (delete_note k s)"
  by (auto simp add: foreign_rows_kept_def delete_activity_def delete_budget_item_def
      delete_note_def delete_conv)

lemma foreign_rows_kept_add:
  "(\<And>A. trip_owner s k = Some A \<Longrightarrow> A = uid) \<Longrightarrow> foreign_rows_kept uid s (add_trip k t s)"
  "(\<And>A. day_owner s k = Some A \<Longrightarrow> A = uid) \<Longrightarrow> foreign_rows_kept uid s (add_day k d s)"
  "(\<And>A. activity_owner s k = Some A \<Longrightarrow> A = uid)
     \<Longrightarrow> foreign_rows_kept uid s (add_activity k a s)"
  "(\<And>A. budget_item_owner s k = Some A \<Longrightarrow> A = uid)
     \<Longrightarrow> foreign_rows_kept uid s (add_budget_item k b s)"
  "(\<And>A. note_owner s k = Some A \<Longrightarrow> A = uid) \<Longrightarrow> foreign_rows_kept uid s (add_note k n s)"
  by (auto simp add: foreign_rows_kept_def add_trip_def add_day_def add_activity_def
      add_budget_item_def add_note_def update_conv)

lemma session_count:
  "session (count_trip st) = session st"
  "session (count_day st) = session st"
  "session (count_activity st) = session st"
  "session (count_budget_item st) = session st"
  "session (count_note st) = session st"
  by (simp_all add: count_trip_def count_day_def count_activity_def count_budget_item_def
      count_note_def)

lemma foreign_rows_kept_sync_trip:
  "foreign_rows_kept uid (session st) (session (sync_trip e uid strat d st))"
proof (cases "UUID e (id_s d)")
  case None
  then show ?thesis by (simp add: sync_trip_bad_id foreign_rows_kept_refl)
next
  case (Some k)
  show ?thesis
  proof (cases "map_of (tbl_trips (session st)) k")
    case None
    then have own: "\<And>A. trip_owner (session st) k = Some A \<Longrightarrow> A = uid"
      by (simp add: trip_owner_def)
    show ?thesis
      using Some None own
      by (cases "is_deleted d")
        (simp_all add: sync_trip_absent_deleted sync_trip_create session_count
          foreign_rows_kept_refl foreign_rows_kept_add)
  next
    case (Some t)
    note row = this
    show ?thesis
    proof (cases "Trip.user_id t = uid")
      case False
      with \<open>UUID e (id_s d) = Some k\<close> row show ?thesis
        by (simp add: sync_trip_foreign foreign_rows_kept_refl)
    next
      case True
      then have own: "trip_owner (session st) k = Some uid"
        using row by (simp add: trip_owner_def)
      from own have own': "\<And>A. trip_owner (session st) k = Some A \<Longrightarrow> A = uid"
        by simp
      show ?thesis
      proof (cases "is_deleted d")
        case True
        with \<open>UUID e (id_s d) = Some k\<close> row \<open>Trip.user_id t = uid\<close> own show ?thesis
          by (simp add: sync_trip_delete session_count foreign_rows_kept_delete_trip)
      next
        case False
        with \<open>UUID e (id_s d) = Some k\<close> row \<open>Trip.user_id t = uid\<close> own' show ?thesis
          by (simp add: sync_trip_existing session_count foreign_rows_kept_refl
              foreign_rows_kept_add split: sum.splits)
      qed
    qed
  qed
qed

lemma foreign_rows_kept_sync_day:
  "foreign_rows_kept uid (session st) (session (sync_day e uid strat d st))"
proof (cases "UUID e (id_s d)")
  case None
  then show ?thesis by (simp add: sync_day_bad_id foreign_rows_kept_refl)
next
  case (Some k)
  note key = this
  show ?thesis
  proof (cases "map_of (tbl_days (session st)) k")
    case None
    then have own: "\<And>A. day_owner (session st) k = Some A \<Longrightarrow> A = uid"
      by (simp add: day_owner_def)
    show ?thesis
      using key None own
      by (cases "is_deleted d")
        (simp_all add: sync_day_absent_deleted sync_day_new session_count
          foreign_rows_kept_refl foreign_rows_kept_add split: option.splits)
  next
    case (Some dy)
    note row = this
    show ?thesis
    proof (cases "owned_trip (session st) uid (Day.trip_id dy)")
      case False
      with key row show ?thesis
        by (simp add: sync_day_foreign foreign_rows_kept_refl)
    next
      case True
      then have own: "day_owner (session st) k = Some uid"
        using row by (simp add: day_owner_def owned_trip_iff)
      from own have own': "\<And>A. day_owner (session st) k = Some A \<Longrightarrow> A = uid"
        by simp
      show ?thesis
      proof (cases "is_deleted d")
        case True
        with key row \<open>owned_trip (session st) uid (Day.trip_id dy)\<close> own show ?thesis
          by (simp add: sync_day_delete session_count foreign_rows_kept_delete_day)
      next
        case False
        with key row \<open>owned_trip (session st) uid (Day.trip_id dy)\<close> own' show ?thesis
          by (simp add: sync_day_existing session_count foreign_rows_kept_refl
              foreign_rows_kept_add split: sum.splits)
      qed
    qed
  qed
qed

lemma foreign_rows_kept_sync_budget_item:
  "foreign_rows_kept uid (session st) (session (sync_budget_item e uid strat d st))"
proof (cases "UUID e (id_s d)")
  case None
  then show ?thesis by (simp add: sync_budget_item_bad_id foreign_rows_kept_refl)
next
  case (Some k)
  note key = this
  show ?thesis
  proof (cases "map_of (tbl_budget_items (session st)) k")
    case None
    then have own: "\<And>A. budget_item_owner (session st) k = Some A \<Longrightarrow> A = uid"
      by (simp add: budget_item_owner_def)
    show ?thesis
      using key None own
      by (cases "is_deleted d")
        (simp_all add: sync_budget_item_absent_deleted sync_budget_item_new session_count
          foreign_rows_kept_refl foreign_rows_kept_add split: option.splits)
  next
    case (Some b)
    note row = this
    show ?thesis
    proof (cases "owned_trip (session st) uid (BudgetItem.trip_id b)")
      case False
      with key row show ?thesis
        by (simp add: sync_budget_item_foreign foreign_rows_kept_refl)
    next
      case True
      then have own: "budget_item_owner (session st) k = Some uid"
        using row by (simp add: budget_item_owner_def owned_trip_iff)
      from own have own': "\<And>A. budget_item_owner (session st) k = Some A \<Longrightarrow> A = uid"
        by simp
      show ?thesis
      proof (cases "is_deleted d")
        case True
        with key row \<open>owned_trip (session st) uid (BudgetItem.trip_id b)\<close> own show ?thesis
          by (simp add: sync_budget_item_delete session_count foreign_rows_kept_delete_other)
      next
        case False
        with key row \<open>owned_trip (session st) uid (BudgetItem.trip_id b)\<close> own' show ?thesis
          by (simp add: sync_budget_item_existing session_count foreign_rows_kept_refl
              foreign_rows_kept_add split: sum.splits)
      qed
    qed
  qed
qed

lemma foreign_rows_kept_sync_note:
  "foreign_rows_kept uid (session st) (session (sync_note e uid strat d st))"
proof (cases "UUID e (id_s d)")
  case None
  then show ?thesis by (simp add: sync_note_bad_id foreign_rows_kept_refl)
next
  case (Some k)
  note key = this
  show ?thesis
  proof (cases "map_of (tbl_notes (session st)) k")
    case None
    then have own: "\<And>A. note_owner (session st) k = Some A \<Longrightarrow> A = uid"
      by (simp add: note_owner_def)
    show ?thesis
      using key None own
      by (cases "is_deleted d")
        (simp_all add: sync_note_absent_deleted sync_note_new session_count
          foreign_rows_kept_refl foreign_rows_kept_add split: option.splits)
  next
    case (Some n)
    note row = this
    show ?thesis
    proof (cases "owned_trip (session st) uid (Note.trip_id n)")
      case False
      with key row show ?thesis
        by (simp add: sync_note_foreign foreign_rows_kept_refl)
    next
      case True
      then have own: "note_owner (session st) k = Some uid"
        using row by (simp add: note_owner_def owned_trip_iff)
      from own have own': "\<And>A. note_owner (session st) k = Some A \<Longrightarrow> A = uid"
        by simp
      show ?thesis
      proof (cases "is_deleted d")
        case True
        with key row \<open>owned_trip (session st) uid (Note.trip_id n)\<close> own show ?thesis
          by (simp add: sync_note_delete session_count foreign_rows_kept_delete_other)
      next
        case False
        with key row \<open>owned_trip (session st) uid (Note.trip_id n)\<close> own' show ?thesis
          by (simp add: sync_note_existing session_count foreign_rows_kept_refl
              foreign_rows_kept_add split: sum.splits)
      qed
    qed
  qed
qed

lemma foreign_rows_kept_sync_activity:
  "foreign_rows_kept uid (session st) (session (sync_activity e uid strat d st))"
proof (cases "UUID e (id_s d)")
  case None
  then show ?thesis by (simp add: sync_activity_bad_id foreign_rows_kept_refl)
next
  case (Some k)
  note key = this
  show ?thesis
  proof (cases "map_of (tbl_activities (session st)) k")
    case None
    then have own: "\<And>A. activity_owner (session st) k = Some A \<Longrightarrow> A = uid"
      by (simp add: activity_owner_def)
    show ?thesis
      using key None own
      by (cases "is_deleted d")
        (simp_all add: sync_activity_absent_deleted sync_activity_new session_count
          foreign_rows_kept_refl foreign_rows_kept_add split: option.splits)
  next
    case (Some a)
    note row = this
    show ?thesis
    proof (cases "map_of (tbl_days (session st)) (Activity.day_id a)")
      case None
      then have own: "\<And>A. activity_owner (session st) k = Some A \<Longrightarrow> A = uid"
        using row by (simp add: activity_owner_def day_owner_def)
      show ?thesis
        using key row None own
        by (cases "is_deleted d")
          (simp_all add: sync_activity_orphan_deleted sync_activity_existing session_count
            foreign_rows_kept_refl foreign_rows_kept_add split: sum.splits)
    next
      case (Some dy)
      note day = this
      show ?thesis
      proof (cases "owned_trip (session st) uid (Day.trip_id dy)")
        case False
        with key row day show ?thesis
          by (simp add: sync_activity_foreign foreign_rows_kept_refl)
      next
        case True
        then have own: "activity_owner (session st) k = Some uid"
          using row day by (simp add: activity_owner_def day_owner_def owned_trip_iff)
        from own have own': "\<And>A. activity_owner (session st) k = Some A \<Longrightarrow> A = uid"
          by simp
        show ?thesis
        proof (cases "is_deleted d")
          case True
          with key row day \<open>owned_trip (session st) uid (Day.trip_id dy)\<close> own show ?thesis
            by (simp add: sync_activity_delete session_count foreign_rows_kept_delete_other)
        next
          case False
          with key row day \<open>owned_trip (session st) uid (Day.trip_id dy)\<close> own' show ?thesis
            by (simp add: sync_activity_existing session_count foreign_rows_kept_refl
                foreign_rows_kept_add split: sum.splits)
        qed
      qed
    qed
  qed
qed

lemma foreign_rows_kept_fold:
  "foreign_rows_kept uid (session st) (session (fold (sync_trip e uid strat) ts st))"
  "foreign_rows_kept uid (session st) (session (fold (sync_day e uid strat) ds st))"
  "foreign_rows_kept uid (session st) (session (fold (sync_activity e uid strat) as st))"
  "foreign_rows_kept uid (session st) (session (fold (sync_budget_item e uid strat) bs st))"
  "foreign_rows_kept uid (session st) (session (fold (sync_note e uid strat) ns st))"
proof -
  show "foreign_rows_kept uid (session st) (session (fold (sync_trip e uid strat) ts st))"
  proof (induction ts arbitrary: st)
    case Nil
    show ?case by (simp add: foreign_rows_kept_refl)
  next
    case (Cons x xs)
    from foreign_rows_kept_trans[OF foreign_rows_kept_sync_trip Cons.IH] show ?case by simp
  qed
  show "foreign_rows_kept uid (session st) (session (fold (sync_day e uid strat) ds st))"
  proof (induction ds arbitrary: st)
    case Nil
    show ?case by (simp add: foreign_rows_kept_refl)
  next
    case (Cons x xs)
    from foreign_rows_kept_trans[OF foreign_rows_kept_sync_day Cons.IH] show ?case by simp
  qed
  show "foreign_rows_kept uid (session st) (session (fold (sync_activity e uid strat) as st))"
  proof (induction as arbitrary: st)
    case Nil
    show ?case by (simp add: foreign_rows_kept_refl)
  next
    case (Cons x xs)
    from foreign_rows_kept_trans[OF foreign_rows_kept_sync_activity Cons.IH] show ?case by simp
  qed
  show "foreign_rows_kept uid (session st) (session (fold (sync_budget_item e uid strat) bs st))"
  proof (induction bs arbitrary: st)
    case Nil
    show ?case by (simp add: foreign_rows_kept_refl)
  next
    case (Cons x xs)
    from foreign_rows_kept_trans[OF foreign_rows_kept_sync_budget_item Cons.IH] show ?case
      by simp
  qed
  show "foreign_rows_kept uid (session st) (session (fold (sync_note e uid strat) ns st))"
  proof (induction ns arbitrary: st)
    case Nil
    show ?case by (simp add: foreign_rows_kept_refl)
  next
    case (Cons x xs)
    from foreign_rows_kept_trans[OF foreign_rows_kept_sync_note Cons.IH] show ?case by simp
  qed
qed

lemma foreign_rows_kept_upload:
  "foreign_rows_kept uid (session st) (session (upload e uid request st))"
  unfolding upload_def
  by (rule foreign_rows_kept_trans[OF foreign_rows_kept_fold(1)
        foreign_rows_kept_trans[OF foreign_rows_kept_fold(2)
          foreign_rows_kept_trans[OF foreign_rows_kept_fold(3)
            foreign_rows_kept_trans[OF foreign_rows_kept_fold(4) foreign_rows_kept_fold(5)]]]])

lemma foreign_record_skipped:
  "UUID e (id_s td) = Some tk \<Longrightarrow> trip_owner (session st) tk = Some A \<Longrightarrow> A \<noteq> uid
     \<Longrightarrow> sync_trip e uid strat td st = st"
  "UUID e (id_s dd) = Some dk \<Longrightarrow> day_owner (session st) dk = Some A \<Longrightarrow> A \<noteq> uid
     \<Longrightarrow> sync_day e uid strat dd st = st"
  "UUID e (id_s ad) = Some ak \<Longrightarrow> activity_owner (session st) ak = Some A \<Longrightarrow> A \<noteq> uid
     \<Longrightarrow> sync_activity e uid strat ad st = st"
  "UUID e (id_s bd) = Some bk \<Longrightarrow> budget_item_owner (session st) bk = Some A \<Longrightarrow> A \<noteq> uid
     \<Longrightarrow> sync_budget_item e uid strat bd st = st"
  "UUID e (id_s nd) = Some nk \<Longrightarrow> note_owner (session st) nk = Some A \<Longrightarrow> A \<noteq> uid
     \<Longrightarrow> sync_note e uid strat nd st = st"
proof -
  show "UUID e (id_s td) = Some tk \<Longrightarrow> trip_owner (session st) tk = Some A \<Longrightarrow> A \<noteq> uid
     \<Longrightarrow> sync_trip e uid strat td st = st"
    by (auto simp add: trip_owner_def intro: sync_trip_foreign)
  show "UUID e (id_s dd) = Some dk \<Longrightarrow> day_owner (session st) dk = Some A \<Longrightarrow> A \<noteq> uid
     \<Longrightarrow> sync_day e uid strat dd st = st"
    by (auto simp add: day_owner_def owned_trip_iff split: option.splits intro: sync_day_foreign)
  show "UUID e (id_s ad) = Some ak \<Longrightarrow> activity_owner (session st) ak = Some A \<Longrightarrow> A \<noteq> uid
     \<Longrightarrow> sync_activity e uid strat ad st = st"
    by (auto simp add: activity_owner_def day_owner_def owned_trip_iff split: option.splits
        intro: sync_activity_foreign)
  show "UUID e (id_s bd) = Some bk \<Longrightarrow> budget_item_owner (session st) bk = Some A \<Longrightarrow> A \<noteq> uid
     \<Longrightarrow> sync_budget_item e uid strat bd st = st"
    by (auto simp add: budget_item_owner_def owned_trip_iff split: option.splits
        intro: sync_budget_item_foreign)
  show "UUID e (id_s nd) = Some nk \<Longrightarrow> note_owner (session st) nk = Some A \<Longrightarrow> A \<noteq> uid
     \<Longrightarrow> sync_note e uid strat nd st = st"
    by (auto simp add: note_owner_def owned_trip_iff split: option.splits intro: sync_note_foreign)
qed

text \<open>
  Claim C2 (ownership isolation). A record of any of the five entity types whose id
  resolves to a stored row owned, through its chain, by another user is skipped under
  every strategy, tombstone or not: the reconciler returns the state it was given, so
  nothing is written or deleted, no counter moves and no conflict is recorded. And over a
  whole call, whatever the request holds, every row that resolved to another user before
  the call is the same row after it.
\<close>

theorem other_users_rows_never_touched:
  "(UUID e (id_s td) = Some tk \<and> trip_owner (session st) tk = Some A \<and> A \<noteq> uid
      \<longrightarrow> sync_trip e uid strat td st = st)
   \<and> (UUID e (id_s dd) = Some dk \<and> day_owner (session st) dk = Some A \<and> A \<noteq> uid
      \<longrightarrow> sync_day e uid strat dd st = st)
   \<and> (UUID e (id_s ad) = Some ak \<and> activity_owner (session st) ak = Some A \<and> A \<noteq> uid
      \<longrightarrow> sync_activity e uid strat ad st = st)
   \<and> (UUID e (id_s bd) = Some bk \<and> budget_item_owner (session st) bk = Some A \<and> A \<noteq> uid
      \<longrightarrow> sync_budget_item e uid strat bd st = st)
   \<and> (UUID e (id_s nd) = Some nk \<and> note_owner (session st) nk = Some A \<and> A \<noteq> uid
      \<longrightarrow> sync_note e uid strat nd st = st)
   \<and> (trip_owner db k1 = Some B \<and> B \<noteq> uid
      \<longrightarrow> map_of (tbl_trips (fst (sync_data e uid request db))) k1 = map_of (tbl_trips db) k1)
   \<and> (day_owner db k2 = Some B \<and> B \<noteq> uid
      \<longrightarrow> map_of (tbl_days (fst (sync_data e uid request db))) k2 = map_of (tbl_days db) k2)
   \<and> (activity_owner db k3 = Some B \<and> B \<noteq> uid
      \<longrightarrow> map_of (tbl_activities (fst (sync_data e uid request db))) k3
          = map_of (tbl_activities db) k3)
   \<and> (budget_item_owner db k4 = Some B \<and> B \<noteq> uid
      \<longrightarrow> map_of (tbl_budget_items (fst (sync_data e uid request db))) k4
          = map_of (tbl_budget_items db) k4)
   \<and> (note_owner db k5 = Some B \<and> B \<noteq> uid
      \<longrightarrow> map_of (tbl_notes (fst (sync_data e uid request db))) k5 = map_of (tbl_notes db) k5)"
proof -
  have "foreign_rows_kept uid (session (initial_state e db))
      (session (upload e uid request (initial_state e db)))"
    by (rule foreign_rows_kept_upload)
  then have kept: "foreign_rows_kept uid db (fst (sync_data e uid request db))"
    by (simp add: sync_data_store initial_state_def)
  have whole:
    "trip_owner db k1 = Some B \<and> B \<noteq> uid
      \<longrightarrow> map_of (tbl_trips (fst (sync_data e uid request db))) k1 = map_of (tbl_trips db) k1"
    "day_owner db k2 = Some B \<and> B \<noteq> uid
      \<longrightarrow> map_of (tbl_days (fst (sync_data e uid request db))) k2 = map_of (tbl_days db) k2"
    "activity_owner db k3 = Some B \<and> B \<noteq> uid
      \<longrightarrow> map_of (tbl_activities (fst (sync_data e uid request db))) k3
          = map_of (tbl_activities db) k3"
    "budget_item_owner db k4 = Some B \<and> B \<noteq> uid
      \<longrightarrow> map_of (tbl_budget_items (fst (sync_data e uid request db))) k4
          = map_of (tbl_budget_items db) k4"
    "note_owner db k5 = Some B \<and> B \<noteq> uid
      \<longrightarrow> map_of (tbl_notes (fst (sync_data e uid request db))) k5 = map_of (tbl_notes db) k5"
    using kept unfolding foreign_rows_kept_def by blast+
  show ?thesis
    by (intro conjI impI whole[rule_format]; (elim conjE)?)
       (auto intro: foreign_record_skipped)
qed

theorem other_users_rows_never_touched_witness:
  "sync_trip ex_env alice Client_wins
      (trip_record ''00000000-0000-0000-0000-000000000002'' ''2024-02-01T00:00:00'' False
         (Some ''Hijacked'')) ex_state = ex_state
   \<and> sync_day ex_env alice Client_wins
      (day_record ''00000000-0000-0000-0000-000000000020'' ''2024-02-01T00:00:00'' True
         ''00000000-0000-0000-0000-000000000001'' None) ex_state = ex_state
   \<and> sync_activity ex_env alice Client_wins
      (activity_record ''00000000-0000-0000-0000-000000000021'' ''2024-02-01T00:00:00'' True
         ''00000000-0000-0000-0000-000000000010'' None) ex_state = ex_state
   \<and> sync_budget_item ex_env alice Client_wins
      (budget_item_record ''00000000-0000-0000-0000-000000000022'' ''2024-02-01T00:00:00'' True
         ''00000000-0000-0000-0000-000000000001'' None) ex_state = ex_state
   \<and> sync_note ex_env alice Client_wins
      (note_record ''00000000-0000-0000-0000-000000000023'' ''2024-02-01T00:00:00'' True
         ''00000000-0000-0000-0000-000000000001'' None) ex_state = ex_state
   \<and> map_of (tbl_trips (fst (sync_data ex_env alice ex_foreign_request ex_db))) 0x02
       = Some (ex_trip bob ''Other Trip'')
   \<and> map_of (tbl_days (fst (sync_data ex_env alice ex_foreign_request ex_db))) 0x20
       = Some (ex_day 0x02)
   \<and> map_of (tbl_activities (fst (sync_data ex_env alice ex_foreign_request ex_db))) 0x21
       = Some (ex_activity 0x20)
   \<and> map_of (tbl_budget_items (fst (sync_data ex_env alice ex_foreign_request ex_db))) 0x22
       = Some (ex_budget_item 0x02)
   \<and> map_of (tbl_notes (fst (sync_data ex_env alice ex_foreign_request ex_db))) 0x23
       = Some (ex_note 0x02)"
proof -
  have ids:
    "UUID ex_env (id_s (trip_record ''00000000-0000-0000-0000-000000000002''
        ''2024-02-01T00:00:00'' False (Some ''Hijacked''))) = Some 0x02"
    "UUID ex_env (id_s (day_record ''00000000-0000-0000-0000-000000000020''
        ''2024-02-01T00:00:00'' True ''00000000-0000-0000-0000-000000000001'' None)) = Some 0x20"
    "UUID ex_env (id_s (activity_record ''00000000-0000-0000-0000-000000000021''
        ''2024-02-01T00:00:00'' True ''00000000-0000-0000-0000-000000000010'' None)) = Some 0x21"
    "UUID ex_env (id_s (budget_item_record ''00000000-0000-0000-0000-000000000022''
        ''2024-02-01T00:00:00'' True ''00000000-0000-0000-0000-000000000001'' None)) = Some 0x22"
    "UUID ex_env (id_s (note_record ''00000000-0000-0000-0000-000000000023''
        ''2024-02-01T00:00:00'' True ''00000000-0000-0000-0000-000000000001'' None)) = Some 0x23"
    by (simp_all add: ex_env_def ex_UUID_def trip_record_def day_record_def activity_record_def
        budget_item_record_def note_record_def)
  have own: "trip_owner ex_db 0x02 = Some bob" "day_owner ex_db 0x20 = Some bob"
    "activity_owner ex_db 0x21 = Some bob" "budget_item_owner ex_db 0x22 = Some bob"
    "note_owner ex_db 0x23 = Some bob"
    by (simp_all add: trip_owner_def day_owner_def activity_owner_def budget_item_owner_def
        note_owner_def ex_db_def ex_trip_def ex_day_def ex_activity_def ex_budget_item_def
        ex_note_def)
  have ne: "bob \<noteq> alice"
    by (simp add: alice_def bob_def)
  have st: "session ex_state = ex_db"
    by (simp add: ex_state_def initial_state_def)
  have rows: "map_of (tbl_trips ex_db) 0x02 = Some (ex_trip bob ''Other Trip'')"
    "map_of (tbl_days ex_db) 0x20 = Some (ex_day 0x02)"
    "map_of (tbl_activities ex_db) 0x21 = Some (ex_activity 0x20)"
    "map_of (tbl_budget_items ex_db) 0x22 = Some (ex_budget_item 0x02)"
    "map_of (tbl_notes ex_db) 0x23 = Some (ex_note 0x02)"
    by (simp_all add: ex_db_def)
  show ?thesis
    using other_users_rows_never_touched[where e = ex_env and uid = alice and A = bob and B = bob
        and st = ex_state and strat = Client_wins and db = ex_db
        and request = ex_foreign_request
        and td = "trip_record ''00000000-0000-0000-0000-000000000002'' ''2024-02-01T00:00:00''
          False (Some ''Hijacked'')" and tk = "0x02"
        and dd = "day_record ''00000000-0000-0000-0000-000000000020'' ''2024-02-01T00:00:00''
          True ''00000000-0000-0000-0000-000000000001'' None" and dk = "0x20"
        and ad = "activity_record ''00000000-0000-0000-0000-000000000021''
          ''2024-02-01T00:00:00'' True ''00000000-0000-0000-0000-000000000010'' None"
        and ak = "0x21"
        and bd = "budget_item_record ''00000000-0000-0000-0000-000000000022''
          ''2024-02-01T00:00:00'' True ''00000000-0000-0000-0000-000000000001'' None"
        and bk = "0x22"
        and nd = "note_record ''00000000-0000-0000-0000-000000000023'' ''2024-02-01T00:00:00''
          True ''00000000-0000-0000-0000-000000000001'' None" and nk = "0x23"
        and ?k1.0 = "0x02" and ?k2.0 = "0x20" and ?k3.0 = "0x21" and ?k4.0 = "0x22"
        and ?k5.0 = "0x23"]
    by (simp only: ids own ne st rows simp_thms not_False_eq_True)
qed

end
